theory Spec2Isabelle
  imports Complex_Main "HOL-Library.Finite_Map" "HOL-Library.Sublist"
begin

section \<open>JavaScript values\<close>

text \<open>
  The proxy (\<^verbatim>\<open>src/server.js\<close>, and its legacy variant \<^verbatim>\<open>src/unnamed/part_000\<close>)
  handles bodies that \<^verbatim>\<open>express.json()\<close> has parsed, so the values it sees are JSON
  values. An object is a finite map from property names to values. A number is the
  rational its literal denotes: the program stores and copies numbers and never
  calculates with them. A string is the list of its characters.
\<close>

datatype json =
    JNull
  | JBool bool
  | JNum rat
  | JStr string
  | JArr "json list"
  | JObj "(string, json) fmap"

text \<open>
  A thrown \<^verbatim>\<open>TypeError\<close> is \<open>Inl\<close> of its message; a value is \<open>Inr\<close>.
\<close>

type_synonym 'a js = "string + 'a"

text \<open>JavaScript truthiness, as \<^verbatim>\<open>||\<close> and \<^verbatim>\<open>if\<close> test it.\<close>

fun truthy :: "json \<Rightarrow> bool" where
  "truthy JNull = False"
| "truthy (JBool b) = b"
| "truthy (JNum n) = (n \<noteq> 0)"
| "truthy (JStr s) = (s \<noteq> [])"
| "truthy (JArr xs) = True"
| "truthy (JObj m) = True"

text \<open>
  The elements of an array, and the characters of a string, are own properties named by
  their index in decimal.
\<close>

definition digit :: "nat \<Rightarrow> char" where
  "digit d = ''0123456789'' ! d"

fun decimal :: "nat \<Rightarrow> string" where
  "decimal n = (if n < 10 then [digit n] else decimal (n div 10) @ [digit (n mod 10)])"

definition indexed :: "json list \<Rightarrow> (string, json) fmap" where
  "indexed xs = fmap_of_list (zip (map decimal [0..<length xs]) xs)"

text \<open>
  The own enumerable properties of a value, which the object spread
  \<^verbatim>\<open>{...v}\<close> copies: the properties of an object, the elements of an array, the
  characters of a string, and nothing for a number or a boolean.
\<close>

fun spread :: "json \<Rightarrow> (string, json) fmap" where
  "spread (JObj m) = m"
| "spread (JArr xs) = indexed xs"
| "spread (JStr s) = indexed (map (\<lambda>c. JStr [c]) s)"
| "spread v = fmempty"

text \<open>
  Reading a property \<^verbatim>\<open>v.k\<close> of a JSON value: \<open>None\<close> is \<^verbatim>\<open>undefined\<close>, and reading
  a property of \<^verbatim>\<open>null\<close> throws. The names the program reads this way (\<^verbatim>\<open>models\<close>,
  \<^verbatim>\<open>name\<close>, \<^verbatim>\<open>version\<close>, \<^verbatim>\<open>response\<close>) are not inherited from a prototype.
\<close>

fun get_prop :: "json \<Rightarrow> string \<Rightarrow> (json option) js" where
  "get_prop JNull k = Inl (''Cannot read properties of null (reading '' @ k @ '')'')"
| "get_prop (JObj m) k = Inr (fmlookup m k)"
| "get_prop (JArr xs) k =
     Inr (if k = ''length'' then Some (JNum (of_nat (length xs))) else fmlookup (indexed xs) k)"
| "get_prop (JStr s) k =
     Inr (if k = ''length'' then Some (JNum (of_nat (length s)))
          else fmlookup (indexed (map (\<lambda>c. JStr [c]) s)) k)"
| "get_prop v k = Inr None"

text \<open>\<^verbatim>\<open>String.prototype.includes\<close> and \<^verbatim>\<open>startsWith\<close> (the latter is \<^const>\<open>prefix\<close>).\<close>

fun str_includes :: "string \<Rightarrow> string \<Rightarrow> bool" where
  "str_includes [] sub = (sub = [])"
| "str_includes (c # cs) sub = (prefix sub (c # cs) \<or> str_includes cs sub)"

section \<open>Configuration\<close>

definition PORT :: nat where
  "PORT = 8080"

definition OLLAMA_URL :: string where
  "OLLAMA_URL = ''http://localhost:11434''"

text \<open>
  \<^verbatim>\<open>process.env.BEARER_TOKEN || 'your-secret-token-here'\<close>: the argument is the
  environment variable, \<open>None\<close> when it is unset. An empty string is falsy too.
\<close>

definition BEARER_TOKEN :: "string option \<Rightarrow> string" where
  "BEARER_TOKEN env =
     (case env of
        None \<Rightarrow> ''your-secret-token-here''
      | Some t \<Rightarrow> if t = [] then ''your-secret-token-here'' else t)"

definition MODEL_NAME :: string where
  "MODEL_NAME = ''mistral:7b''"

definition getOptimizedParams :: "(string, json) fmap" where
  "getOptimizedParams = fmap_of_list
     [(''num_ctx'', JNum 4096),
      (''num_batch'', JNum 512),
      (''num_gpu'', JNum (- 1)),
      (''main_gpu'', JNum 0),
      (''use_mmap'', JBool True),
      (''num_thread'', JNum 8),
      (''temperature'', JNum (7 / 10)),
      (''top_k'', JNum 40),
      (''top_p'', JNum (9 / 10)),
      (''repeat_penalty'', JNum (11 / 10)),
      (''penalize_newline'', JBool False)]"

section \<open>Requests, outbound calls and responses\<close>

text \<open>
  The body of a request after \<^verbatim>\<open>express.json()\<close> in its default strict mode is an
  object, an array, or absent. The handler treats it as a mutable JavaScript object and
  sets properties on it, also when it is an array: \<open>Array xs ps\<close> has the elements \<open>xs\<close>
  and the further properties \<open>ps\<close> (none when it comes from the parser).
\<close>

datatype payload =
    Plain "(string, json) fmap"
  | Array "json list" "(string, json) fmap"

text \<open>Own property lookup; \<open>None\<close> when the object has no such own property.\<close>

fun get_own :: "payload \<Rightarrow> string \<Rightarrow> json option" where
  "get_own (Plain m) k = fmlookup m k"
| "get_own (Array xs ps) k =
     (if k = ''length'' then Some (JNum (of_nat (length xs)))
      else case fmlookup ps k of Some v \<Rightarrow> Some v | None \<Rightarrow> fmlookup (indexed xs) k)"

text \<open>
  The assignment \<^verbatim>\<open>payload.k = v\<close> for a name \<open>k\<close> that is neither an array index nor
  \<^verbatim>\<open>length\<close>; the handler assigns to \<^verbatim>\<open>stream\<close> and \<^verbatim>\<open>options\<close> only.
\<close>

fun set_prop :: "payload \<Rightarrow> string \<Rightarrow> json \<Rightarrow> payload" where
  "set_prop (Plain m) k v = Plain (fmupd k v m)"
| "set_prop (Array xs ps) k v = Array xs (fmupd k v ps)"

text \<open>
  \<^verbatim>\<open>payload.hasOwnProperty(k)\<close>. The method is looked up on the payload itself first:
  a body with an own property named \<^verbatim>\<open>hasOwnProperty\<close> shadows the inherited method
  with a JSON value, and calling that value throws.
\<close>

definition hasOwnProperty :: "payload \<Rightarrow> string \<Rightarrow> bool js" where
  "hasOwnProperty p k =
     (case get_own p ''hasOwnProperty'' of
        Some v \<Rightarrow> Inl ''payload.hasOwnProperty is not a function''
      | None \<Rightarrow> Inr (get_own p k \<noteq> None))"

text \<open>
  A request as the handlers read it: \<^verbatim>\<open>req.method\<close>, \<^verbatim>\<open>req.path\<close> (Express: the
  path of the request URL, without the query string), the query string itself (with its
  leading question mark, or empty), \<^verbatim>\<open>req.headers.authorization\<close> and \<^verbatim>\<open>req.body\<close>.
\<close>

record request =
  req_method :: string
  req_path :: string
  req_query :: string
  req_authorization :: "string option"
  req_body :: "payload option"

definition originalUrl :: "request \<Rightarrow> string" where
  "originalUrl req = req_path req @ req_query req"

text \<open>
  A request as it arrives, before any middleware: besides the method, the path, the
  query string and the \<^verbatim>\<open>Authorization\<close> header it has the bytes of its body, and what
  \<^verbatim>\<open>express.json({ limit: '50mb' })\<close> (line 12) makes of them. The parser is a library
  and not part of the program, so its result is given with the request: it leaves
  \<^verbatim>\<open>req.body\<close> unset (no body, or a content type that is not JSON; older versions of
  the parser set the empty object, which is \<open>Parsed (Plain fmempty)\<close>), or sets it to
  the parsed object or array, or refuses the request with an error that carries a
  status: 400 for a body that is not JSON, 413 for one beyond the limit, 415 for an
  unsupported charset or encoding.
\<close>

datatype parsing =
    Unparsed
  | Parsed payload
  | Refused nat

record inbound =
  in_method :: string
  in_path :: string
  in_query :: string
  in_authorization :: "string option"
  in_raw :: string
  in_parsing :: parsing

text \<open>
  \<^verbatim>\<open>app.use(express.json(...))\<close>: the middleware that runs first on every request.
  \<open>Inl\<close> is the status of the error it hands to Express, \<open>Inr\<close> the request it hands on.
\<close>

definition expressJson :: "inbound \<Rightarrow> nat + request" where
  "expressJson inb =
     (case in_parsing inb of
        Refused st \<Rightarrow> Inl st
      | Unparsed \<Rightarrow>
          Inr \<lparr>req_method = in_method inb, req_path = in_path inb, req_query = in_query inb,
               req_authorization = in_authorization inb, req_body = None\<rparr>
      | Parsed b \<Rightarrow>
          Inr \<lparr>req_method = in_method inb, req_path = in_path inb, req_query = in_query inb,
               req_authorization = in_authorization inb, req_body = Some b\<rparr>)"

text \<open>What the program hands to \<^verbatim>\<open>axios\<close>; the timeout is in milliseconds.\<close>

record axios_config =
  cfg_method :: string
  cfg_url :: string
  cfg_headers :: "(string \<times> string) list"
  cfg_timeout :: "nat option"
  cfg_data :: "payload option"
  cfg_responseType :: "string option"

text \<open>
  The error a \<^verbatim>\<open>catch\<close> block receives, by the three fields the program reads:
  \<^verbatim>\<open>error.response\<close> (status and data), \<^verbatim>\<open>error.code\<close> and \<^verbatim>\<open>error.message\<close>. The
  type \<open>'d\<close> is the backend's response data, which the proxy hands on unread: the
  parsed body, or for a call made with \<^verbatim>\<open>responseType: 'stream'\<close> the stream object.
\<close>

record 'd js_error =
  err_response :: "(nat \<times> 'd) option"
  err_code :: "string option"
  err_message :: string

definition TypeError :: "string \<Rightarrow> 'd js_error" where
  "TypeError msg = \<lparr>err_response = None, err_code = None, err_message = msg\<rparr>"

datatype 'd axios_result =
    Resolved 'd
  | Rejected "'d js_error"

text \<open>The backend, as the program meets it: what \<^verbatim>\<open>await axios(config)\<close> yields.\<close>

type_synonym 'd backend = "axios_config \<Rightarrow> 'd axios_result"

text \<open>
  Three backends for examples: one that answers every call with the JSON value
  \<^verbatim>\<open>null\<close>, one whose host cannot be reached, and one that answers every call with
  status 404 and an error body.
\<close>

definition nullBackend :: "json backend" where
  "nullBackend c = Resolved JNull"



text \<open>
  What is sent to the client: \<open>SendJson\<close> and \<open>SendBackend\<close> are \<^verbatim>\<open>res.json\<close> of a value
  built here and of backend data, \<open>Piped\<close> is the backend stream piped into the
  response, and \<open>ErrorPage\<close> is the page of Express's own error handler (the program
  installs none). \<open>Unsent\<close> stands for a handler that threw before it sent anything:
  the status it had set is kept in the outcome, and what the client then gets is up to
  Express.
\<close>

datatype 'd res_body =
    SendJson json
  | SendBackend 'd
  | Piped 'd
  | ErrorPage
  | Unsent

text \<open>
  What one run did: the outbound calls it made, in order, and the response it gave.
\<close>

record 'd outcome =
  calls :: "axios_config list"
  res_status :: nat
  res_body :: "'d res_body"

section \<open>The authentication gate\<close>

text \<open>
  \<^verbatim>\<open>validateToken\<close>: \<open>Some\<close> is the response sent instead of calling \<^verbatim>\<open>next()\<close>,
  \<open>None\<close> is \<^verbatim>\<open>next()\<close>.
\<close>

definition validateToken :: "string \<Rightarrow> request \<Rightarrow> (nat \<times> json) option" where
  "validateToken token req =
     (case req_authorization req of
        None \<Rightarrow> Some (401, JObj (fmap_of_list [(''error'', JStr ''Unauthorized'')]))
      | Some auth \<Rightarrow>
          if auth = [] \<or> auth \<noteq> ''Bearer '' @ token
          then Some (401, JObj (fmap_of_list [(''error'', JStr ''Unauthorized'')]))
          else None)"

section \<open>The proxy handler\<close>

text \<open>Lines 129 to 131: force \<^verbatim>\<open>stream\<close> to false unless it is exactly true.\<close>

definition forceStream :: "payload \<Rightarrow> payload js" where
  "forceStream p =
     (case hasOwnProperty p ''stream'' of
        Inl msg \<Rightarrow> Inl msg
      | Inr has \<Rightarrow>
          Inr (if \<not> has \<or> get_own p ''stream'' \<noteq> Some (JBool True)
               then set_prop p ''stream'' (JBool False) else p))"

text \<open>
  Lines 134 to 140: \<^verbatim>\<open>{...optimizedParams, ...(payload.options || {})}\<close>; the later
  spread wins on a shared key.
\<close>

definition callerOptions :: "payload \<Rightarrow> (string, json) fmap" where
  "callerOptions p =
     (case get_own p ''options'' of
        None \<Rightarrow> fmempty
      | Some v \<Rightarrow> if truthy v then spread v else fmempty)"

definition mergeOptions :: "payload \<Rightarrow> payload" where
  "mergeOptions p = set_prop p ''options'' (JObj (getOptimizedParams ++\<^sub>f callerOptions p))"

definition augment :: "payload \<Rightarrow> payload js" where
  "augment p = (case forceStream p of Inl msg \<Rightarrow> Inl msg | Inr p' \<Rightarrow> Inr (mergeOptions p'))"

definition isGeneration :: "request \<Rightarrow> bool" where
  "isGeneration req \<longleftrightarrow>
     req_method req = ''POST'' \<and>
     (str_includes (req_path req) ''/generate'' \<or> str_includes (req_path req) ''/chat'')"

text \<open>Lines 124 to 141: the payload the handler goes on with.\<close>

definition effectivePayload :: "request \<Rightarrow> payload js" where
  "effectivePayload req =
     (let payload =
            (if req_method req = ''GET'' then Plain fmempty
             else case req_body req of None \<Rightarrow> Plain fmempty | Some b \<Rightarrow> b)
      in if isGeneration req then augment payload else Inr payload)"

text \<open>\<^verbatim>\<open>if (payload.stream)\<close>.\<close>

definition streaming :: "payload \<Rightarrow> bool" where
  "streaming p = (case get_own p ''stream'' of None \<Rightarrow> False | Some v \<Rightarrow> truthy v)"

text \<open>Lines 150 to 167: the outbound request.\<close>

definition axiosConfig :: "request \<Rightarrow> payload \<Rightarrow> axios_config" where
  "axiosConfig req payload =
     \<lparr>cfg_method = req_method req,
      cfg_url = OLLAMA_URL @ req_path req,
      cfg_headers = [(''Content-Type'', ''application/json'')],
      cfg_timeout = Some 600000,
      cfg_data =
        (if req_method req \<noteq> ''GET'' \<and> req_method req \<noteq> ''HEAD'' then Some payload else None),
      cfg_responseType = (if streaming payload then Some ''stream'' else None)\<rparr>"

text \<open>
  Lines 179 to 198: the \<^verbatim>\<open>catch\<close> block. Its arguments are the outbound calls made
  before the error was thrown, whether the call was made with
  \<^verbatim>\<open>responseType: 'stream'\<close>, and the error. Line 184 hands \<^verbatim>\<open>error.response.data\<close> to
  \<^verbatim>\<open>res.json\<close>. For a streaming call that data is the stream object, which
  \<^verbatim>\<open>JSON.stringify\<close> cannot write (it is circular): \<^verbatim>\<open>res.json\<close> throws, after
  \<^verbatim>\<open>res.status\<close> has set the status, and the handler sends nothing.
\<close>

definition onError :: "axios_config list \<Rightarrow> bool \<Rightarrow> 'd js_error \<Rightarrow> 'd outcome" where
  "onError made streamed e =
     (case err_response e of
        Some (st, d) \<Rightarrow>
          if streamed
          then \<lparr>calls = made, res_status = st, res_body = Unsent\<rparr>
          else \<lparr>calls = made, res_status = st, res_body = SendBackend d\<rparr>
      | None \<Rightarrow>
          if err_code e = Some ''ECONNREFUSED''
          then \<lparr>calls = made, res_status = 503,
                res_body = SendJson (JObj (fmap_of_list
                  [(''error'', JStr ''Ollama service unavailable''),
                   (''message'', JStr ''Make sure Ollama is running on localhost:11434'')]))\<rparr>
          else \<lparr>calls = made, res_status = 500,
                res_body = SendJson (JObj (fmap_of_list
                  [(''error'', JStr ''Internal server error''),
                   (''message'', JStr (err_message e))]))\<rparr>)"

text \<open>
  \<^verbatim>\<open>proxyHandler\<close>. Console output is left out. A successful \<^verbatim>\<open>res.json\<close> and the piped
  stream answer with status 200, the default of Express.
\<close>

definition proxyHandler :: "'d backend \<Rightarrow> request \<Rightarrow> 'd outcome" where
  "proxyHandler axios req =
     (case effectivePayload req of
        Inl msg \<Rightarrow> onError [] False (TypeError msg)
      | Inr payload \<Rightarrow>
          (case axios (axiosConfig req payload) of
             Resolved d \<Rightarrow>
               \<lparr>calls = [axiosConfig req payload],
                res_status = 200,
                res_body = (if streaming payload then Piped d else SendBackend d)\<rparr>
           | Rejected e \<Rightarrow> onError [axiosConfig req payload] (streaming payload) e))"

section \<open>The routes\<close>

text \<open>
  Lines 202 to 216: the API routes, each registered as \<^verbatim>\<open>validateToken, proxyHandler\<close>.
\<close>

definition routes :: "(string \<times> string) list" where
  "routes =
     [(''GET'', ''/api/version''),
      (''GET'', ''/api/tags''),
      (''GET'', ''/api/ps''),
      (''POST'', ''/api/generate''),
      (''POST'', ''/api/chat''),
      (''POST'', ''/api/create''),
      (''POST'', ''/api/pull''),
      (''POST'', ''/api/push''),
      (''POST'', ''/api/embed''),
      (''POST'', ''/api/embeddings''),
      (''POST'', ''/api/show''),
      (''POST'', ''/api/copy''),
      (''DELETE'', ''/api/delete''),
      (''HEAD'', ''/api/blobs/:digest''),
      (''POST'', ''/api/blobs/:digest'')]"

text \<open>
  A path that is spelled as a route's pattern is, segment by segment, with any
  non-empty segment in the place of a parameter, is dispatched to that route. Express
  also accepts other letter case and a trailing slash; \<open>onRoute\<close> is used only to say
  that a given request is on a given route, never that it is on none.
\<close>

fun segments :: "string \<Rightarrow> string list" where
  "segments [] = [[]]"
| "segments (c # cs) =
     (if c = CHR ''/'' then [] # segments cs
      else case segments cs of [] \<Rightarrow> [[c]] | s # ss \<Rightarrow> (c # s) # ss)"

definition segmentMatches :: "string \<Rightarrow> string \<Rightarrow> bool" where
  "segmentMatches pat seg =
     (if pat \<noteq> [] \<and> hd pat = CHR '':'' then seg \<noteq> [] else pat = seg)"

definition routeMatches :: "string \<Rightarrow> string \<Rightarrow> bool" where
  "routeMatches pat path = list_all2 segmentMatches (segments pat) (segments path)"

definition onRoute :: "string \<times> string \<Rightarrow> string \<Rightarrow> string \<Rightarrow> bool" where
  "onRoute route m path \<longleftrightarrow> route \<in> set routes \<and> fst route = m \<and> routeMatches (snd route) path"

text \<open>
  What a request to an API route runs through: the JSON parser of line 12, which is
  registered before every route and answers by itself a request whose body it refuses
  (Express's error handler sends the error's status); then the gate; then, only when
  the gate calls \<^verbatim>\<open>next()\<close>, the handler, on the request the gate received. The parser
  also runs before \<^verbatim>\<open>/health\<close>; the health checks below are the handlers proper.
\<close>

definition apiRoute :: "string \<Rightarrow> 'd backend \<Rightarrow> inbound \<Rightarrow> 'd outcome" where
  "apiRoute token axios inb =
     (case expressJson inb of
        Inl st \<Rightarrow> \<lparr>calls = [], res_status = st, res_body = ErrorPage\<rparr>
      | Inr req \<Rightarrow>
          (case validateToken token req of
             Some (st, b) \<Rightarrow> \<lparr>calls = [], res_status = st, res_body = SendJson b\<rparr>
           | None \<Rightarrow> proxyHandler axios req))"

section \<open>Warmup and keepalive\<close>

text \<open>\<^verbatim>\<open>axios.get(url, {timeout})\<close> and \<^verbatim>\<open>axios.post(url, data, {timeout})\<close>.\<close>

definition axiosGet :: "string \<Rightarrow> nat option \<Rightarrow> axios_config" where
  "axiosGet url t =
     \<lparr>cfg_method = ''GET'', cfg_url = url, cfg_headers = [], cfg_timeout = t,
      cfg_data = None, cfg_responseType = None\<rparr>"

definition axiosPost :: "string \<Rightarrow> payload \<Rightarrow> nat option \<Rightarrow> axios_config" where
  "axiosPost url d t =
     \<lparr>cfg_method = ''POST'', cfg_url = url, cfg_headers = [], cfg_timeout = t,
      cfg_data = Some d, cfg_responseType = None\<rparr>"

definition versionRequest :: axios_config where
  "versionRequest = axiosGet (OLLAMA_URL @ ''/api/version'') (Some 5000)"

definition tagsRequest :: axios_config where
  "tagsRequest = axiosGet (OLLAMA_URL @ ''/api/tags'') None"

definition psRequest :: axios_config where
  "psRequest = axiosGet (OLLAMA_URL @ ''/api/ps'') (Some 5000)"

definition warmupPayload :: payload where
  "warmupPayload = Plain (fmap_of_list
     [(''model'', JStr MODEL_NAME),
      (''prompt'', JStr ''Hi''),
      (''stream'', JBool False),
      (''options'', JObj (getOptimizedParams ++\<^sub>f fmap_of_list [(''max_tokens'', JNum 10)]))])"

definition warmupRequest :: axios_config where
  "warmupRequest = axiosPost (OLLAMA_URL @ ''/api/generate'') warmupPayload (Some 120000)"

definition keepalivePayload :: payload where
  "keepalivePayload = Plain (fmap_of_list
     [(''model'', JStr MODEL_NAME),
      (''prompt'', JStr ''ping''),
      (''stream'', JBool False),
      (''options'', JObj (getOptimizedParams ++\<^sub>f fmap_of_list [(''max_tokens'', JNum 1)]))])"

definition keepaliveRequest :: axios_config where
  "keepaliveRequest = axiosPost (OLLAMA_URL @ ''/api/generate'') keepalivePayload (Some 30000)"

text \<open>
  The callback \<^verbatim>\<open>model => model.name === MODEL_NAME || model.name.startsWith(MODEL_NAME + ':')\<close>.
  When the name is not a string, the comparison is false and the call of
  \<^verbatim>\<open>startsWith\<close> throws.
\<close>

definition nameMatches :: "json \<Rightarrow> bool js" where
  "nameMatches model =
     (case get_prop model ''name'' of
        Inl msg \<Rightarrow> Inl msg
      | Inr None \<Rightarrow> Inl ''Cannot read properties of undefined (reading startsWith)''
      | Inr (Some (JStr s)) \<Rightarrow> Inr (s = MODEL_NAME \<or> prefix (MODEL_NAME @ '':'') s)
      | Inr (Some JNull) \<Rightarrow> Inl ''Cannot read properties of null (reading startsWith)''
      | Inr (Some v) \<Rightarrow> Inl ''model.name.startsWith is not a function'')"

text \<open>\<^verbatim>\<open>Array.prototype.some\<close> with that callback: left to right, up to the first match.\<close>

fun someModel :: "json list \<Rightarrow> bool js" where
  "someModel [] = Inr False"
| "someModel (m # ms) =
     (case nameMatches m of
        Inl msg \<Rightarrow> Inl msg
      | Inr True \<Rightarrow> Inr True
      | Inr False \<Rightarrow> someModel ms)"

text \<open>\<^verbatim>\<open>response.data.models.some(...)\<close>, for the listings of \<^verbatim>\<open>/api/tags\<close> and \<^verbatim>\<open>/api/ps\<close>.\<close>

definition modelListed :: "json \<Rightarrow> bool js" where
  "modelListed d =
     (case get_prop d ''models'' of
        Inl msg \<Rightarrow> Inl msg
      | Inr None \<Rightarrow> Inl ''Cannot read properties of undefined (reading some)''
      | Inr (Some (JArr ms)) \<Rightarrow> someModel ms
      | Inr (Some JNull) \<Rightarrow> Inl ''Cannot read properties of null (reading some)''
      | Inr (Some v) \<Rightarrow> Inl ''response.data.models.some is not a function'')"

text \<open>\<^verbatim>\<open>warmupResponse.data.response.trim()\<close> throws unless the response text is a string.\<close>

definition responseText :: "json \<Rightarrow> string js" where
  "responseText d =
     (case get_prop d ''response'' of
        Inl msg \<Rightarrow> Inl msg
      | Inr None \<Rightarrow> Inl ''Cannot read properties of undefined (reading trim)''
      | Inr (Some (JStr s)) \<Rightarrow> Inr s
      | Inr (Some JNull) \<Rightarrow> Inl ''Cannot read properties of null (reading trim)''
      | Inr (Some v) \<Rightarrow> Inl ''warmupResponse.data.response.trim is not a function'')"

text \<open>
  The condition of the warmup as the specification words it, to be compared with
  \<open>modelListed\<close>, which is what the program computes: the listing has an entry whose name
  is the configured model name, or starts with that name followed by a colon.
\<close>

definition entries :: "json \<Rightarrow> json list" where
  "entries d = (case get_prop d ''models'' of Inr (Some (JArr ms)) \<Rightarrow> ms | _ \<Rightarrow> [])"

definition entryName :: "json \<Rightarrow> string option" where
  "entryName m = (case get_prop m ''name'' of Inr (Some (JStr s)) \<Rightarrow> Some s | _ \<Rightarrow> None)"

definition listingHasModel :: "json \<Rightarrow> bool" where
  "listingHasModel d \<longleftrightarrow>
     (\<exists>m \<in> set (entries d). \<exists>s. entryName m = Some s \<and>
        (s = MODEL_NAME \<or> prefix (MODEL_NAME @ '':'') s))"

text \<open>
  A listing as the backend gives it: \<^verbatim>\<open>models\<close> is an array and every entry has a
  name that is a string.
\<close>

definition wellFormedListing :: "json \<Rightarrow> bool" where
  "wellFormedListing d \<longleftrightarrow>
     (case get_prop d ''models'' of
        Inr (Some (JArr ms)) \<Rightarrow> list_all (\<lambda>m. entryName m \<noteq> None) ms
      | _ \<Rightarrow> False)"

text \<open>The lines the program writes to the console, by what they report.\<close>

datatype log_event =
    ServerStarting
  | ServerRunning
  | WarmupStarting
  | ServiceRunning
  | ModelNotFound
  | ModelFound
  | WarmingUp
  | WarmupCompleted
  | WarmupResponse
  | WarmupFailed string
  | HintServe
  | HintPull
  | ServerReady
  | ServerDegraded
  | KeepaliveStarting
  | PingSuccessful
  | PingFailed string
  | ShuttingDown

text \<open>The \<^verbatim>\<open>catch\<close> block of \<^verbatim>\<open>warmupModel\<close>, which then returns false.\<close>

definition warmupFailed :: "json js_error \<Rightarrow> log_event list" where
  "warmupFailed e =
     WarmupFailed (err_message e) #
     (if err_code e = Some ''ECONNREFUSED'' then [HintServe]
      else if map_option fst (err_response e) = Some 404 then [HintPull]
      else [])"

text \<open>
  \<^verbatim>\<open>warmupModel\<close>: its result, the outbound calls it made and what it logged.
\<close>

definition warmupModel :: "json backend \<Rightarrow> bool \<times> axios_config list \<times> log_event list" where
  "warmupModel axios =
     (case axios versionRequest of
        Rejected e \<Rightarrow> (False, [versionRequest], WarmupStarting # warmupFailed e)
      | Resolved ver \<Rightarrow>
     (case axios tagsRequest of
        Rejected e \<Rightarrow>
          (False, [versionRequest, tagsRequest],
           [WarmupStarting, ServiceRunning] @ warmupFailed e)
      | Resolved tags \<Rightarrow>
     (case modelListed tags of
        Inl msg \<Rightarrow>
          (False, [versionRequest, tagsRequest],
           [WarmupStarting, ServiceRunning] @ warmupFailed (TypeError msg))
      | Inr False \<Rightarrow>
          (False, [versionRequest, tagsRequest],
           [WarmupStarting, ServiceRunning, ModelNotFound])
      | Inr True \<Rightarrow>
     (case axios warmupRequest of
        Rejected e \<Rightarrow>
          (False, [versionRequest, tagsRequest, warmupRequest],
           [WarmupStarting, ServiceRunning, ModelFound, WarmingUp] @ warmupFailed e)
      | Resolved d \<Rightarrow>
     (case responseText d of
        Inl msg \<Rightarrow>
          (False, [versionRequest, tagsRequest, warmupRequest],
           [WarmupStarting, ServiceRunning, ModelFound, WarmingUp, WarmupCompleted]
           @ warmupFailed (TypeError msg))
      | Inr txt \<Rightarrow>
          (True, [versionRequest, tagsRequest, warmupRequest],
           [WarmupStarting, ServiceRunning, ModelFound, WarmingUp, WarmupCompleted,
            WarmupResponse]))))))"

text \<open>
  The callback that \<^verbatim>\<open>startKeepalive\<close> hands to \<^verbatim>\<open>setInterval\<close>: one ping, and a
  log line for either outcome. Nothing it does reaches the timer.
\<close>

definition keepalivePing :: "json backend \<Rightarrow> axios_config list \<times> log_event list" where
  "keepalivePing axios =
     (case axios keepaliveRequest of
        Resolved d \<Rightarrow> ([keepaliveRequest], [PingSuccessful])
      | Rejected e \<Rightarrow> ([keepaliveRequest], [PingFailed (err_message e)]))"

section \<open>The process\<close>

text \<open>
  The state of the running process: whether the HTTP server listens, whether the
  keepalive timer is set, the exit code once the process has exited, and what it has
  sent to the backend, logged and answered so far. The bind of the port is taken to
  succeed, and time is counted in events: the ten minutes between two ticks and the
  timeouts of the calls are not part of the state.
\<close>

record proc =
  listening :: bool
  keepalive :: bool
  exit_code :: "nat option"
  outbound :: "axios_config list"
  console :: "log_event list"
  served :: "json outcome list"

definition startKeepalive :: "proc \<Rightarrow> proc" where
  "startKeepalive s = s\<lparr>keepalive := True, console := console s @ [KeepaliveStarting]\<rparr>"

definition startServer :: "json backend \<Rightarrow> proc" where
  "startServer axios =
     (let s = \<lparr>listening = True, keepalive = False, exit_code = None, outbound = [],
               console = [ServerStarting, ServerRunning], served = []\<rparr>;
          (warmupSuccess, made, logged) = warmupModel axios;
          s' = s\<lparr>outbound := made, console := console s @ logged\<rparr>
      in if warmupSuccess
         then startKeepalive (s'\<lparr>console := console s' @ [ServerReady]\<rparr>)
         else s'\<lparr>console := console s' @ [ServerDegraded]\<rparr>)"

text \<open>
  What can happen to the process after startup: the timer fires (the backend answers
  the ping as the event says), a request arrives on one of the API routes, or a signal
  arrives. A timer that was never set does not fire, and an exited process does nothing.
\<close>

datatype event =
    Tick "json backend"
  | Request "json backend" inbound
  | Sigint
  | Sigterm

definition step :: "string option \<Rightarrow> proc \<Rightarrow> event \<Rightarrow> proc" where
  "step env s ev =
     (if exit_code s \<noteq> None then s
      else case ev of
        Tick axios \<Rightarrow>
          if keepalive s
          then s\<lparr>outbound := outbound s @ fst (keepalivePing axios),
                 console := console s @ snd (keepalivePing axios)\<rparr>
          else s
      | Request axios inb \<Rightarrow>
          if listening s
          then s\<lparr>outbound := outbound s @ calls (apiRoute (BEARER_TOKEN env) axios inb),
                 served := served s @ [apiRoute (BEARER_TOKEN env) axios inb]\<rparr>
          else s
      | Sigint \<Rightarrow> s\<lparr>exit_code := Some 0, console := console s @ [ShuttingDown]\<rparr>
      | Sigterm \<Rightarrow> s\<lparr>exit_code := Some 0, console := console s @ [ShuttingDown]\<rparr>)"

fun run :: "string option \<Rightarrow> proc \<Rightarrow> event list \<Rightarrow> proc" where
  "run env s [] = s"
| "run env s (ev # evs) = run env (step env s ev) evs"

section \<open>The health checks\<close>

text \<open>
  The legacy \<^verbatim>\<open>/health\<close> handler (\<^verbatim>\<open>src/unnamed/part_000\<close>, lines 136 to 142). Its
  argument is the value of \<^verbatim>\<open>new Date().toISOString()\<close>.
\<close>

definition healthLegacy :: "string \<Rightarrow> json outcome" where
  "healthLegacy now =
     \<lparr>calls = [], res_status = 200,
      res_body = SendJson (JObj (fmap_of_list
        [(''status'', JStr ''healthy''),
         (''timestamp'', JStr now),
         (''ollama_url'', JStr OLLAMA_URL)]))\<rparr>"

text \<open>The \<^verbatim>\<open>catch\<close> block of the model-aware \<^verbatim>\<open>/health\<close> handler.\<close>

definition unhealthy :: "axios_config list \<Rightarrow> string \<Rightarrow> string \<Rightarrow> json outcome" where
  "unhealthy made now msg =
     \<lparr>calls = made, res_status = 503,
      res_body = SendJson (JObj (fmap_of_list
        [(''status'', JStr ''unhealthy''),
         (''timestamp'', JStr now),
         (''error'', JStr msg)]))\<rparr>"

text \<open>
  The model-aware \<^verbatim>\<open>/health\<close> handler (\<^verbatim>\<open>src/server.js\<close>, lines 219 to 244). A
  property whose value is \<^verbatim>\<open>undefined\<close> is left out of the JSON that \<^verbatim>\<open>res.json\<close> sends.
\<close>

definition health :: "json backend \<Rightarrow> string \<Rightarrow> json outcome" where
  "health axios now =
     (case axios versionRequest of
        Rejected e \<Rightarrow> unhealthy [versionRequest] now (err_message e)
      | Resolved ver \<Rightarrow>
     (case axios psRequest of
        Rejected e \<Rightarrow> unhealthy [versionRequest, psRequest] now (err_message e)
      | Resolved ps \<Rightarrow>
     (case modelListed ps of
        Inl msg \<Rightarrow> unhealthy [versionRequest, psRequest] now msg
      | Inr modelLoaded \<Rightarrow>
     (case get_prop ver ''version'' of
        Inl msg \<Rightarrow> unhealthy [versionRequest, psRequest] now msg
      | Inr version \<Rightarrow>
          \<lparr>calls = [versionRequest, psRequest], res_status = 200,
           res_body = SendJson (JObj (fmap_of_list
             ([(''status'', JStr ''healthy''),
               (''timestamp'', JStr now),
               (''ollama_url'', JStr OLLAMA_URL)]
              @ (case version of None \<Rightarrow> [] | Some v \<Rightarrow> [(''ollama_version'', v)])
              @ [(''model_loaded'', JBool modelLoaded),
                 (''model_name'', JStr MODEL_NAME)])))\<rparr>))))"

section \<open>Properties of the parameter augmenter\<close>

text \<open>
  The defining equation of \<open>decimal\<close> rewrites its own right-hand side, so it is
  applied by hand.
\<close>

declare decimal.simps [simp del]

text \<open>
  An index is written in digits, so no element of an array is its property
  \<^verbatim>\<open>hasOwnProperty\<close>: on a body that is an array the guard does not throw.
\<close>

lemma digit_in: "d < 10 \<Longrightarrow> digit d \<in> set ''0123456789''"
  unfolding digit_def by (rule nth_mem) simp

lemma decimal_last: "last (decimal n) \<in> set ''0123456789''"
proof -
  have "last (decimal n) = digit (n mod 10)"
    by (subst decimal.simps) simp
  moreover have "digit (n mod 10) \<in> set ''0123456789''"
    by (rule digit_in) simp
  ultimately show ?thesis
    by (simp only:)
qed

lemma indexed_lookup:
  assumes "last k \<notin> set ''0123456789''"
  shows "fmlookup (indexed xs) k = None"
proof -
  have "k \<notin> set (map decimal [0..<length xs])"
    using assms decimal_last by auto
  then show ?thesis
    by (simp add: indexed_def fmlookup_of_list map_of_zip_is_None)
qed

lemma parsed_array_unshadowed: "get_own (Array xs fmempty) ''hasOwnProperty'' = None"
  by (simp add: indexed_lookup)

lemma get_own_set_prop:
  "k \<noteq> ''length'' \<Longrightarrow> get_own (set_prop p k v) k' = (if k' = k then Some v else get_own p k')"
  by (cases p) auto

lemma set_prop_twice: "set_prop (set_prop p k v) k w = set_prop p k w"
  by (cases p) simp_all

lemma set_prop_swap:
  "k \<noteq> k' \<Longrightarrow> set_prop (set_prop p k v) k' w = set_prop (set_prop p k' w) k v"
  by (cases p) (simp_all add: fmupd_reorder_neq)

text \<open>The merge, key by key: the caller's value where the caller has one, else the default.\<close>

lemma merged_lookup:
  "fmlookup (getOptimizedParams ++\<^sub>f c) k =
     (case fmlookup c k of Some v \<Rightarrow> Some v | None \<Rightarrow> fmlookup getOptimizedParams k)"
  by (auto split: option.splits simp: fmdom_notI fmdomI)

lemma merged_again:
  "getOptimizedParams ++\<^sub>f (getOptimizedParams ++\<^sub>f c) = getOptimizedParams ++\<^sub>f c"
  by (rule fmap_ext) auto

lemma forceStream_shadowed:
  "get_own p ''hasOwnProperty'' = Some v \<Longrightarrow>
     forceStream p = Inl ''payload.hasOwnProperty is not a function''"
  by (simp add: forceStream_def hasOwnProperty_def)

lemma forceStream_plain:
  "get_own p ''hasOwnProperty'' = None \<Longrightarrow>
     forceStream p =
       Inr (if get_own p ''stream'' = Some (JBool True) then p
            else set_prop p ''stream'' (JBool False))"
  by (auto simp: forceStream_def hasOwnProperty_def)

lemma callerOptions_set_stream:
  "callerOptions (set_prop p ''stream'' v) = callerOptions p"
  by (simp add: callerOptions_def get_own_set_prop)

lemma augment_shadowed:
  "get_own p ''hasOwnProperty'' = Some v \<Longrightarrow>
     augment p = Inl ''payload.hasOwnProperty is not a function''"
  by (simp add: augment_def forceStream_shadowed)

lemma augment_plain:
  "get_own p ''hasOwnProperty'' = None \<Longrightarrow>
     augment p =
       Inr (set_prop
             (if get_own p ''stream'' = Some (JBool True) then p
              else set_prop p ''stream'' (JBool False))
             ''options'' (JObj (getOptimizedParams ++\<^sub>f callerOptions p)))"
  by (simp add: augment_def forceStream_plain mergeOptions_def callerOptions_set_stream)

lemma augment_cases:
  obtains (shadowed) v where "get_own p ''hasOwnProperty'' = Some v"
      "augment p = Inl ''payload.hasOwnProperty is not a function''"
  | (plain) "get_own p ''hasOwnProperty'' = None"
      "augment p =
       Inr (set_prop
             (if get_own p ''stream'' = Some (JBool True) then p
              else set_prop p ''stream'' (JBool False))
             ''options'' (JObj (getOptimizedParams ++\<^sub>f callerOptions p)))"
  by (cases "get_own p ''hasOwnProperty''") (auto simp: augment_shadowed augment_plain)

text \<open>
  What the augmenter yields when it does not throw: \<^verbatim>\<open>stream\<close> is true exactly when
  the caller set it to true, and \<^verbatim>\<open>options\<close> is the merge.
\<close>

lemma augment_stream:
  assumes "augment p = Inr p'"
  shows "get_own p' ''stream'' = Some (JBool (get_own p ''stream'' = Some (JBool True)))"
  using assms by (cases p rule: augment_cases) (auto simp: get_own_set_prop)

lemma augment_options:
  assumes "augment p = Inr p'"
  shows "get_own p' ''options'' = Some (JObj (getOptimizedParams ++\<^sub>f callerOptions p))"
  using assms by (cases p rule: augment_cases) (auto simp: get_own_set_prop)

lemma augment_unshadowed:
  assumes "augment p = Inr p'"
  shows "get_own p' ''hasOwnProperty'' = None"
  using assms by (cases p rule: augment_cases) (auto simp: get_own_set_prop)

lemma augment_fixed:
  assumes "augment p = Inr p'"
  shows "augment p' = Inr p'"
proof -
  let ?m = "getOptimizedParams ++\<^sub>f callerOptions p"
  have opts: "callerOptions p' = ?m"
    using augment_options [OF assms] by (simp add: callerOptions_def)
  have again: "getOptimizedParams ++\<^sub>f callerOptions p' = ?m"
    by (simp add: opts merged_again)
  from assms show ?thesis
  proof (cases p rule: augment_cases)
    case (shadowed v)
    with assms show ?thesis by simp
  next
    case plain
    show ?thesis
    proof (cases "get_own p ''stream'' = Some (JBool True)")
      case True
      with plain assms have p': "p' = set_prop p ''options'' (JObj ?m)" by simp
      have "get_own p' ''stream'' = Some (JBool True)"
        using augment_stream [OF assms] True by simp
      then show ?thesis
        using augment_plain [OF augment_unshadowed [OF assms]] again
        by (simp add: p' set_prop_twice)
    next
      case False
      with plain assms
      have p': "p' = set_prop (set_prop p ''stream'' (JBool False)) ''options'' (JObj ?m)"
        by simp
      have "get_own p' ''stream'' = Some (JBool False)"
        using augment_stream [OF assms] False by simp
      then show ?thesis
        using augment_plain [OF augment_unshadowed [OF assms]] again
        by (simp add: p' set_prop_twice set_prop_swap)
    qed
  qed
qed

text \<open>
  C9. The augmenter is idempotent. Applying it to its own output gives that output
  again, and a body on which it throws is a body on which applying it twice throws the
  same error. Its output has a boolean \<^verbatim>\<open>stream\<close> and an \<^verbatim>\<open>options\<close> object that has
  every default key.
\<close>

theorem augment_idempotent:
  "(case augment p of Inl msg \<Rightarrow> Inl msg | Inr p' \<Rightarrow> augment p') = augment p \<and>
   (\<forall>p'. augment p = Inr p' \<longrightarrow>
      augment p' = Inr p' \<and>
      (\<exists>b. get_own p' ''stream'' = Some (JBool b)) \<and>
      (\<exists>m. get_own p' ''options'' = Some (JObj m) \<and> fmdom getOptimizedParams |\<subseteq>| fmdom m))"
proof (intro conjI allI impI)
  show "(case augment p of Inl msg \<Rightarrow> Inl msg | Inr p' \<Rightarrow> augment p') = augment p"
    by (cases "augment p") (simp_all add: augment_fixed)
next
  fix p' assume "augment p = Inr p'"
  then show "augment p' = Inr p'" by (rule augment_fixed)
next
  fix p' assume "augment p = Inr p'"
  then show "\<exists>b. get_own p' ''stream'' = Some (JBool b)" by (simp add: augment_stream)
next
  fix p' assume "augment p = Inr p'"
  then have "get_own p' ''options'' = Some (JObj (getOptimizedParams ++\<^sub>f callerOptions p))"
    by (rule augment_options)
  then show "\<exists>m. get_own p' ''options'' = Some (JObj m) \<and> fmdom getOptimizedParams |\<subseteq>| fmdom m"
    by auto
qed

theorem augment_idempotent_witness:
  "augment (Plain (fmap_of_list [(''model'', JStr ''mistral:7b''), (''prompt'', JStr ''hi'')])) =
     Inr (Plain (fmap_of_list
       [(''options'', JObj getOptimizedParams),
        (''stream'', JBool False),
        (''model'', JStr ''mistral:7b''),
        (''prompt'', JStr ''hi'')])) \<and>
   augment (Plain (fmap_of_list
       [(''options'', JObj getOptimizedParams),
        (''stream'', JBool False),
        (''model'', JStr ''mistral:7b''),
        (''prompt'', JStr ''hi'')])) =
     Inr (Plain (fmap_of_list
       [(''options'', JObj getOptimizedParams),
        (''stream'', JBool False),
        (''model'', JStr ''mistral:7b''),
        (''prompt'', JStr ''hi'')]))"
proof -
  have first:
    "augment (Plain (fmap_of_list [(''model'', JStr ''mistral:7b''), (''prompt'', JStr ''hi'')])) =
       Inr (Plain (fmap_of_list
         [(''options'', JObj getOptimizedParams),
          (''stream'', JBool False),
          (''model'', JStr ''mistral:7b''),
          (''prompt'', JStr ''hi'')]))"
    by (simp add: augment_plain callerOptions_def)
  with augment_idempotent
    [of "Plain (fmap_of_list [(''model'', JStr ''mistral:7b''), (''prompt'', JStr ''hi'')])"]
  show ?thesis by simp
qed

section \<open>Properties of the authentication gate\<close>

text \<open>
  C3, as amended. The JSON parser runs before the gate: a request whose body it
  refuses is answered with the parser's status and never reaches the gate. A request
  that the parser hands on reaches the gate as it arrived, with its body parsed. If its
  \<^verbatim>\<open>Authorization\<close> header is absent, or is not exactly \<^verbatim>\<open>Bearer\<close>, a space and the
  configured token, it is answered with 401 and the error payload; with exactly that
  header the gate sends nothing and the handler runs on that request. Without exactly
  that header no call to the backend is made, whatever the parser does.
\<close>

theorem validateToken_gate:
  "(\<forall>st. in_parsing inb = Refused st \<longrightarrow>
      apiRoute token axios inb = \<lparr>calls = [], res_status = st, res_body = ErrorPage\<rparr>) \<and>
   (\<forall>req. expressJson inb = Inr req \<longrightarrow>
      req_method req = in_method inb \<and>
      req_path req = in_path inb \<and>
      req_query req = in_query inb \<and>
      req_authorization req = in_authorization inb \<and>
      req_body req = (case in_parsing inb of Parsed b \<Rightarrow> Some b | _ \<Rightarrow> None) \<and>
      (in_authorization inb \<noteq> Some (''Bearer '' @ token) \<longrightarrow>
         validateToken token req =
           Some (401, JObj (fmap_of_list [(''error'', JStr ''Unauthorized'')])) \<and>
         apiRoute token axios inb =
           \<lparr>calls = [], res_status = 401,
            res_body = SendJson (JObj (fmap_of_list [(''error'', JStr ''Unauthorized'')]))\<rparr>) \<and>
      (in_authorization inb = Some (''Bearer '' @ token) \<longrightarrow>
         validateToken token req = None \<and>
         apiRoute token axios inb = proxyHandler axios req)) \<and>
   (in_authorization inb \<noteq> Some (''Bearer '' @ token) \<longrightarrow>
      calls (apiRoute token axios inb) = [])"
  by (cases "in_parsing inb")
    (auto simp: apiRoute_def expressJson_def validateToken_def split: option.splits)

theorem validateToken_gate_witness:
  "apiRoute (BEARER_TOKEN (Some ''s3cret'')) nullBackend
     \<lparr>in_method = ''GET'', in_path = ''/api/tags'', in_query = [],
      in_authorization = Some ''Bearer guess'', in_raw = [], in_parsing = Unparsed\<rparr> =
     \<lparr>calls = [], res_status = 401,
      res_body = SendJson (JObj (fmap_of_list [(''error'', JStr ''Unauthorized'')]))\<rparr> \<and>
   apiRoute (BEARER_TOKEN (Some ''s3cret'')) nullBackend
     \<lparr>in_method = ''GET'', in_path = ''/api/tags'', in_query = [],
      in_authorization = Some ''Bearer s3cret'', in_raw = [], in_parsing = Unparsed\<rparr> =
     proxyHandler nullBackend
       \<lparr>req_method = ''GET'', req_path = ''/api/tags'', req_query = [],
        req_authorization = Some ''Bearer s3cret'', req_body = None\<rparr> \<and>
   apiRoute (BEARER_TOKEN (Some ''s3cret'')) nullBackend
     \<lparr>in_method = ''POST'', in_path = ''/api/pull'', in_query = [],
      in_authorization = Some ''Bearer s3cret'', in_raw = ''{model'',
      in_parsing = Refused 400\<rparr> =
     \<lparr>calls = [], res_status = 400, res_body = ErrorPage\<rparr>"
  using
    validateToken_gate [of
      "\<lparr>in_method = ''GET'', in_path = ''/api/tags'', in_query = [],
        in_authorization = Some ''Bearer guess'', in_raw = [], in_parsing = Unparsed\<rparr>"
      "BEARER_TOKEN (Some ''s3cret'')" nullBackend]
    validateToken_gate [of
      "\<lparr>in_method = ''GET'', in_path = ''/api/tags'', in_query = [],
        in_authorization = Some ''Bearer s3cret'', in_raw = [], in_parsing = Unparsed\<rparr>"
      "BEARER_TOKEN (Some ''s3cret'')" nullBackend]
    validateToken_gate [of
      "\<lparr>in_method = ''POST'', in_path = ''/api/pull'', in_query = [],
        in_authorization = Some ''Bearer s3cret'', in_raw = ''{model'',
        in_parsing = Refused 400\<rparr>"
      "BEARER_TOKEN (Some ''s3cret'')" nullBackend]
  by (simp add: BEARER_TOKEN_def expressJson_def)

text \<open>
  C3 as stated fails: a request to \<^verbatim>\<open>/api/generate\<close> that has no \<^verbatim>\<open>Authorization\<close>
  header and a body that is not JSON is answered by the parser's error, with 400 and
  not with 401.
\<close>

theorem malformed_body_answered_before_gate:
  "res_status (apiRoute (BEARER_TOKEN (Some ''s3cret'')) nullBackend
     \<lparr>in_method = ''POST'', in_path = ''/api/generate'', in_query = [],
      in_authorization = None, in_raw = ''{model'', in_parsing = Refused 400\<rparr>) = 400 \<and>
   res_status (apiRoute (BEARER_TOKEN (Some ''s3cret'')) nullBackend
     \<lparr>in_method = ''POST'', in_path = ''/api/generate'', in_query = [],
      in_authorization = None, in_raw = ''{model'', in_parsing = Refused 400\<rparr>) \<noteq> 401"
  by (simp add: apiRoute_def expressJson_def)

section \<open>Properties of the proxy handler\<close>

lemma calls_onError: "calls (onError made streamed e) = made"
  by (simp add: onError_def split: option.splits prod.splits)

lemma proxyHandler_threw:
  "effectivePayload req = Inl msg \<Longrightarrow>
     proxyHandler axios req =
       \<lparr>calls = [], res_status = 500,
        res_body = SendJson (JObj (fmap_of_list
          [(''error'', JStr ''Internal server error''), (''message'', JStr msg)]))\<rparr>"
  by (simp add: proxyHandler_def onError_def TypeError_def)

lemma proxyHandler_calls:
  "effectivePayload req = Inr p \<Longrightarrow> calls (proxyHandler axios req) = [axiosConfig req p]"
  by (simp add: proxyHandler_def calls_onError split: axios_result.splits)

lemma proxyHandler_forwarded:
  assumes "calls (proxyHandler axios req) = [c]"
  obtains p where "effectivePayload req = Inr p" "c = axiosConfig req p"
proof (cases "effectivePayload req")
  case (Inl msg)
  with assms show ?thesis by (simp add: proxyHandler_threw)
next
  case (Inr p)
  with assms that show ?thesis by (simp add: proxyHandler_calls)
qed

lemma effectivePayload_generation:
  "isGeneration req \<Longrightarrow>
     effectivePayload req =
       augment (case req_body req of None \<Rightarrow> Plain fmempty | Some b \<Rightarrow> b)"
  by (auto simp: effectivePayload_def isGeneration_def)

lemma effectivePayload_other:
  "\<not> isGeneration req \<Longrightarrow>
     effectivePayload req =
       Inr (if req_method req = ''GET'' then Plain fmempty
            else case req_body req of None \<Rightarrow> Plain fmempty | Some b \<Rightarrow> b)"
  by (simp add: effectivePayload_def)

text \<open>The generation and chat bodies that are forwarded carry the forced flag and the merge.\<close>

lemma generation_forwarded:
  assumes "isGeneration req" and "calls (proxyHandler axios req) = [c]"
  shows "\<exists>p. cfg_data c = Some p \<and>
           get_own p ''stream'' =
             Some (JBool (get_own (case req_body req of None \<Rightarrow> Plain fmempty | Some b \<Rightarrow> b)
                            ''stream'' = Some (JBool True))) \<and>
           get_own p ''options'' =
             Some (JObj (getOptimizedParams ++\<^sub>f
               callerOptions (case req_body req of None \<Rightarrow> Plain fmempty | Some b \<Rightarrow> b)))"
proof -
  from assms(2) obtain p where p: "effectivePayload req = Inr p" "c = axiosConfig req p"
    by (rule proxyHandler_forwarded)
  from assms(1) p(1)
  have "augment (case req_body req of None \<Rightarrow> Plain fmempty | Some b \<Rightarrow> b) = Inr p"
    by (simp add: effectivePayload_generation)
  then show ?thesis
    using assms(1) p(2) by (simp add: augment_stream augment_options axiosConfig_def isGeneration_def)
qed

text \<open>
  C1. On a POST to a generation or chat path the forwarded \<^verbatim>\<open>options\<close> are to be the
  defaults overridden key by key by the caller's options, so that a temperature the
  caller sets is the temperature forwarded. \<open>generation_forwarded\<close> and \<open>merged_lookup\<close>
  show this for every body that is forwarded. The first body below sets a temperature
  and has an own property named \<^verbatim>\<open>hasOwnProperty\<close>: the guard of line 129 calls that
  property, the call throws before the merge of line 137 is reached, and the request is
  answered with status 500 without any call to the backend, whatever the backend would
  do. The same body without that property is forwarded with the caller's temperature
  and the default \<^verbatim>\<open>top_k\<close>.
\<close>

theorem shadowed_options_not_forwarded:
  "proxyHandler axios
     \<lparr>req_method = ''POST'', req_path = ''/api/generate'', req_query = [],
      req_authorization = Some ''Bearer s3cret'',
      req_body = Some (Plain (fmap_of_list
        [(''model'', JStr ''mistral:7b''),
         (''prompt'', JStr ''hi''),
         (''options'', JObj (fmap_of_list [(''temperature'', JNum (1 / 5))])),
         (''hasOwnProperty'', JNum 1)]))\<rparr> =
   \<lparr>calls = [], res_status = 500,
    res_body = SendJson (JObj (fmap_of_list
      [(''error'', JStr ''Internal server error''),
       (''message'', JStr ''payload.hasOwnProperty is not a function'')]))\<rparr> \<and>
   (\<exists>p m. map cfg_data (calls (proxyHandler axios
       \<lparr>req_method = ''POST'', req_path = ''/api/generate'', req_query = [],
        req_authorization = Some ''Bearer s3cret'',
        req_body = Some (Plain (fmap_of_list
          [(''model'', JStr ''mistral:7b''),
           (''prompt'', JStr ''hi''),
           (''options'', JObj (fmap_of_list [(''temperature'', JNum (1 / 5))]))]))\<rparr>)) = [Some p] \<and>
      get_own p ''options'' = Some (JObj m) \<and>
      fmlookup m ''temperature'' = Some (JNum (1 / 5)) \<and>
      fmlookup m ''top_k'' = Some (JNum 40))"
  by (simp add: proxyHandler_threw proxyHandler_calls effectivePayload_generation isGeneration_def
      augment_shadowed augment_plain axiosConfig_def callerOptions_def getOptimizedParams_def)

text \<open>
  C2. On a POST to a generation or chat path whose body has no \<^verbatim>\<open>stream\<close>, or one that
  is not exactly true, the forwarded body is to have \<^verbatim>\<open>stream\<close> false.
  \<open>generation_forwarded\<close> shows this for every body that is forwarded. The first chat
  body below has no \<^verbatim>\<open>stream\<close> and an own property named \<^verbatim>\<open>hasOwnProperty\<close>: the
  guard of line 129 throws on it, nothing is forced and nothing is forwarded, and the
  answer is status 500. The same body without that property is forwarded with
  \<^verbatim>\<open>stream\<close> false.
\<close>

theorem shadowed_stream_not_forced:
  "proxyHandler axios
     \<lparr>req_method = ''POST'', req_path = ''/api/chat'', req_query = [],
      req_authorization = Some ''Bearer s3cret'',
      req_body = Some (Plain (fmap_of_list
        [(''model'', JStr ''mistral:7b''),
         (''messages'', JArr []),
         (''hasOwnProperty'', JBool True)]))\<rparr> =
   \<lparr>calls = [], res_status = 500,
    res_body = SendJson (JObj (fmap_of_list
      [(''error'', JStr ''Internal server error''),
       (''message'', JStr ''payload.hasOwnProperty is not a function'')]))\<rparr> \<and>
   (\<exists>p. map cfg_data (calls (proxyHandler axios
       \<lparr>req_method = ''POST'', req_path = ''/api/chat'', req_query = [],
        req_authorization = Some ''Bearer s3cret'',
        req_body = Some (Plain (fmap_of_list
          [(''model'', JStr ''mistral:7b''),
           (''messages'', JArr [])]))\<rparr>)) = [Some p] \<and>
      get_own p ''stream'' = Some (JBool False))"
  by (simp add: proxyHandler_threw proxyHandler_calls effectivePayload_generation isGeneration_def
      augment_shadowed augment_plain axiosConfig_def)

text \<open>
  What line 184 does with the error of a streaming call: the status is set and nothing
  is sent.
\<close>

lemma streaming_error_unsent:
  assumes "effectivePayload req = Inr p" and "streaming p"
    and "axios (axiosConfig req p) = Rejected e" and "err_response e = Some (st, d)"
  shows "proxyHandler axios req =
           \<lparr>calls = [axiosConfig req p], res_status = st, res_body = Unsent\<rparr>"
  using assms by (simp add: proxyHandler_def onError_def)




text \<open>
  C5, as amended. The outbound request of a proxied request has the method of the
  inbound request, the URL made of the backend base URL and the request path, the
  single header \<^verbatim>\<open>Content-Type: application/json\<close>, and as its data the payload the
  handler computed, unless the method is GET or HEAD, when it has no data. The URL is
  built from \<^verbatim>\<open>req.path\<close>, which Express gives without the query string: the outbound
  URL is the base URL followed by the URL of the request only when the request has no
  query string.
\<close>

theorem proxyHandler_outbound:
  assumes "calls (proxyHandler axios req) = [c]"
  shows "cfg_method c = req_method req \<and>
         cfg_url c = OLLAMA_URL @ req_path req \<and>
         cfg_headers c = [(''Content-Type'', ''application/json'')] \<and>
         (\<exists>p. effectivePayload req = Inr p \<and>
              cfg_data c =
                (if req_method req = ''GET'' \<or> req_method req = ''HEAD'' then None else Some p)) \<and>
         (cfg_url c = OLLAMA_URL @ originalUrl req \<longleftrightarrow> req_query req = [])"
proof -
  from assms obtain p where "effectivePayload req = Inr p" "c = axiosConfig req p"
    by (rule proxyHandler_forwarded)
  then show ?thesis
    by (auto simp: axiosConfig_def originalUrl_def)
qed

theorem proxyHandler_outbound_witness:
  "calls (proxyHandler nullBackend
      \<lparr>req_method = ''POST'', req_path = ''/api/pull'', req_query = [],
       req_authorization = Some ''Bearer s3cret'',
       req_body = Some (Plain (fmap_of_list [(''model'', JStr ''mistral:7b'')]))\<rparr>) =
     [\<lparr>cfg_method = ''POST'', cfg_url = ''http://localhost:11434/api/pull'',
       cfg_headers = [(''Content-Type'', ''application/json'')],
       cfg_timeout = Some 600000,
       cfg_data = Some (Plain (fmap_of_list [(''model'', JStr ''mistral:7b'')])),
       cfg_responseType = None\<rparr>]"
proof -
  have made: "calls (proxyHandler nullBackend
      \<lparr>req_method = ''POST'', req_path = ''/api/pull'', req_query = [],
       req_authorization = Some ''Bearer s3cret'',
       req_body = Some (Plain (fmap_of_list [(''model'', JStr ''mistral:7b'')]))\<rparr>) =
     [axiosConfig
       \<lparr>req_method = ''POST'', req_path = ''/api/pull'', req_query = [],
        req_authorization = Some ''Bearer s3cret'',
        req_body = Some (Plain (fmap_of_list [(''model'', JStr ''mistral:7b'')]))\<rparr>
       (Plain (fmap_of_list [(''model'', JStr ''mistral:7b'')]))]"
    by (simp add: proxyHandler_calls effectivePayload_def isGeneration_def)
  from proxyHandler_outbound [OF made] made show ?thesis
    by (simp add: axiosConfig_def OLLAMA_URL_def streaming_def)
qed

text \<open>
  C5 as stated fails: a request for \<^verbatim>\<open>/api/tags?verbose=1\<close> is forwarded to
  \<^verbatim>\<open>/api/tags\<close>.
\<close>

theorem query_string_dropped:
  "map cfg_url (calls (proxyHandler nullBackend
      \<lparr>req_method = ''GET'', req_path = ''/api/tags'', req_query = ''?verbose=1'',
       req_authorization = Some ''Bearer s3cret'', req_body = None\<rparr>)) =
     [''http://localhost:11434/api/tags''] \<and>
   map cfg_url (calls (proxyHandler nullBackend
      \<lparr>req_method = ''GET'', req_path = ''/api/tags'', req_query = ''?verbose=1'',
       req_authorization = Some ''Bearer s3cret'', req_body = None\<rparr>)) \<noteq>
     [OLLAMA_URL @ originalUrl
        \<lparr>req_method = ''GET'', req_path = ''/api/tags'', req_query = ''?verbose=1'',
         req_authorization = Some ''Bearer s3cret'', req_body = None\<rparr>]"
  by (simp add: proxyHandler_calls effectivePayload_def isGeneration_def axiosConfig_def
      OLLAMA_URL_def originalUrl_def)

text \<open>
  Which routes the test of line 127 lets through. A pattern without a parameter is the
  path itself, and none of the POST patterns other than those of generation and chat
  contains a marker. A path of the blob route contains a marker exactly when the
  digest begins with it.
\<close>

lemma no_slash_no_marker:
  "CHR ''/'' \<notin> set d \<Longrightarrow> \<not> str_includes d (CHR ''/'' # m)"
  by (induction d) auto

lemma literal_routes_unmarked:
  "\<forall>r \<in> set routes.
     fst r = ''POST'' \<and> snd r \<noteq> ''/api/generate'' \<and> snd r \<noteq> ''/api/chat'' \<and>
     snd r \<noteq> ''/api/blobs/:digest'' \<longrightarrow>
     \<not> str_includes (snd r) ''/generate'' \<and> \<not> str_includes (snd r) ''/chat''"
  by (simp add: routes_def)

lemma blob_path_marked:
  assumes "CHR ''/'' \<notin> set digest"
  shows "str_includes (''/api/blobs/'' @ digest) ''/generate'' \<longleftrightarrow> prefix ''generate'' digest"
    and "str_includes (''/api/blobs/'' @ digest) ''/chat'' \<longleftrightarrow> prefix ''chat'' digest"
  using no_slash_no_marker [OF assms] by simp_all

text \<open>
  C6, as amended. On a POST whose path contains neither \<^verbatim>\<open>/generate\<close> nor \<^verbatim>\<open>/chat\<close>,
  exactly one outbound call is made and its data is the parsed body of the request as
  it came: no \<^verbatim>\<open>stream\<close> is forced and no options are merged. A request without a
  parsed body is forwarded with an empty object as its data (\<^verbatim>\<open>req.body || {}\<close>).
  Among these requests are those of every POST route other than the routes of
  generation and chat, except the requests of the blob route whose digest begins with
  \<^verbatim>\<open>generate\<close> or \<^verbatim>\<open>chat\<close>. What is handed on is the parsed value, not the bytes that
  arrived.
\<close>

theorem other_post_body_untouched:
  "(req_method req = ''POST'' \<and>
    \<not> str_includes (req_path req) ''/generate'' \<and> \<not> str_includes (req_path req) ''/chat'' \<longrightarrow>
      map cfg_data (calls (proxyHandler axios req)) =
        [Some (case req_body req of None \<Rightarrow> Plain fmempty | Some b \<Rightarrow> b)]) \<and>
   (\<forall>r \<in> set routes.
      fst r = ''POST'' \<and> snd r \<noteq> ''/api/generate'' \<and> snd r \<noteq> ''/api/chat'' \<and>
      snd r \<noteq> ''/api/blobs/:digest'' \<longrightarrow>
      \<not> str_includes (snd r) ''/generate'' \<and> \<not> str_includes (snd r) ''/chat'') \<and>
   (\<forall>digest. CHR ''/'' \<notin> set digest \<longrightarrow>
      (str_includes (''/api/blobs/'' @ digest) ''/generate'' \<longleftrightarrow> prefix ''generate'' digest) \<and>
      (str_includes (''/api/blobs/'' @ digest) ''/chat'' \<longleftrightarrow> prefix ''chat'' digest))"
proof (intro conjI impI allI)
  assume "req_method req = ''POST'' \<and>
    \<not> str_includes (req_path req) ''/generate'' \<and> \<not> str_includes (req_path req) ''/chat''"
  then have "req_method req = ''POST''" and "\<not> isGeneration req"
    by (simp_all add: isGeneration_def)
  then show "map cfg_data (calls (proxyHandler axios req)) =
        [Some (case req_body req of None \<Rightarrow> Plain fmempty | Some b \<Rightarrow> b)]"
    by (simp add: proxyHandler_calls effectivePayload_other axiosConfig_def)
next
  show "\<forall>r \<in> set routes.
      fst r = ''POST'' \<and> snd r \<noteq> ''/api/generate'' \<and> snd r \<noteq> ''/api/chat'' \<and>
      snd r \<noteq> ''/api/blobs/:digest'' \<longrightarrow>
      \<not> str_includes (snd r) ''/generate'' \<and> \<not> str_includes (snd r) ''/chat''"
    by (rule literal_routes_unmarked)
next
  fix digest :: string assume "CHR ''/'' \<notin> set digest"
  then show "str_includes (''/api/blobs/'' @ digest) ''/generate'' \<longleftrightarrow> prefix ''generate'' digest"
    by (rule blob_path_marked)
next
  fix digest :: string assume "CHR ''/'' \<notin> set digest"
  then show "str_includes (''/api/blobs/'' @ digest) ''/chat'' \<longleftrightarrow> prefix ''chat'' digest"
    by (rule blob_path_marked)
qed

theorem other_post_body_untouched_witness:
  "map cfg_data (calls (proxyHandler nullBackend
      \<lparr>req_method = ''POST'', req_path = ''/api/pull'', req_query = [],
       req_authorization = Some ''Bearer s3cret'',
       req_body = Some (Plain (fmap_of_list
         [(''model'', JStr ''mistral:7b''),
          (''stream'', JStr ''yes''),
          (''options'', JObj (fmap_of_list [(''temperature'', JNum 2)]))]))\<rparr>)) =
     [Some (Plain (fmap_of_list
         [(''model'', JStr ''mistral:7b''),
          (''stream'', JStr ''yes''),
          (''options'', JObj (fmap_of_list [(''temperature'', JNum 2)]))]))] \<and>
   \<not> str_includes ''/api/blobs/sha256:29fdb92e57cf'' ''/chat'' \<and>
   str_includes ''/api/blobs/chat'' ''/chat''"
  using
    other_post_body_untouched [of
      "\<lparr>req_method = ''POST'', req_path = ''/api/pull'', req_query = [],
       req_authorization = Some ''Bearer s3cret'',
       req_body = Some (Plain (fmap_of_list
         [(''model'', JStr ''mistral:7b''),
          (''stream'', JStr ''yes''),
          (''options'', JObj (fmap_of_list [(''temperature'', JNum 2)]))]))\<rparr>"
      nullBackend]
  by simp

text \<open>
  C6 as stated fails three times. A POST to \<^verbatim>\<open>/api/pull\<close> that carries no parsed body
  reaches the backend with the body \<^verbatim>\<open>{}\<close>. A POST to \<^verbatim>\<open>/api/blobs/chat\<close> is on the
  blob route, and its body is given \<^verbatim>\<open>stream\<close> and \<^verbatim>\<open>options\<close>. And two POSTs to
  \<^verbatim>\<open>/api/pull\<close> whose bodies differ by a space, and so parse to the same value, get the
  same outbound call: what reaches the backend cannot be the bytes of both.
\<close>

theorem other_post_body_changed:
  "map cfg_data (calls (proxyHandler nullBackend
      \<lparr>req_method = ''POST'', req_path = ''/api/pull'', req_query = [],
       req_authorization = Some ''Bearer s3cret'', req_body = None\<rparr>)) =
     [Some (Plain fmempty)] \<and>
   map cfg_data (calls (proxyHandler nullBackend
      \<lparr>req_method = ''POST'', req_path = ''/api/pull'', req_query = [],
       req_authorization = Some ''Bearer s3cret'', req_body = None\<rparr>)) \<noteq>
     [req_body
        \<lparr>req_method = ''POST'', req_path = ''/api/pull'', req_query = [],
         req_authorization = Some ''Bearer s3cret'', req_body = None\<rparr>] \<and>
   onRoute (''POST'', ''/api/blobs/:digest'') ''POST'' ''/api/blobs/chat'' \<and>
   map cfg_data (calls (proxyHandler nullBackend
      \<lparr>req_method = ''POST'', req_path = ''/api/blobs/chat'', req_query = [],
       req_authorization = Some ''Bearer s3cret'', req_body = Some (Plain fmempty)\<rparr>)) =
     [Some (Plain (fmap_of_list
        [(''options'', JObj getOptimizedParams), (''stream'', JBool False)]))] \<and>
   map cfg_data (calls (proxyHandler nullBackend
      \<lparr>req_method = ''POST'', req_path = ''/api/blobs/chat'', req_query = [],
       req_authorization = Some ''Bearer s3cret'', req_body = Some (Plain fmempty)\<rparr>)) \<noteq>
     [req_body
        \<lparr>req_method = ''POST'', req_path = ''/api/blobs/chat'', req_query = [],
         req_authorization = Some ''Bearer s3cret'', req_body = Some (Plain fmempty)\<rparr>] \<and>
   calls (apiRoute ''s3cret'' nullBackend
      \<lparr>in_method = ''POST'', in_path = ''/api/pull'', in_query = [],
       in_authorization = Some ''Bearer s3cret'', in_raw = ''{}'',
       in_parsing = Parsed (Plain fmempty)\<rparr>) =
     calls (apiRoute ''s3cret'' nullBackend
      \<lparr>in_method = ''POST'', in_path = ''/api/pull'', in_query = [],
       in_authorization = Some ''Bearer s3cret'', in_raw = ''{ }'',
       in_parsing = Parsed (Plain fmempty)\<rparr>) \<and>
   map cfg_data (calls (apiRoute ''s3cret'' nullBackend
      \<lparr>in_method = ''POST'', in_path = ''/api/pull'', in_query = [],
       in_authorization = Some ''Bearer s3cret'', in_raw = ''{ }'',
       in_parsing = Parsed (Plain fmempty)\<rparr>)) = [Some (Plain fmempty)] \<and>
   in_raw
      \<lparr>in_method = ''POST'', in_path = ''/api/pull'', in_query = [],
       in_authorization = Some ''Bearer s3cret'', in_raw = ''{}'',
       in_parsing = Parsed (Plain fmempty)\<rparr> \<noteq>
     in_raw
      \<lparr>in_method = ''POST'', in_path = ''/api/pull'', in_query = [],
       in_authorization = Some ''Bearer s3cret'', in_raw = ''{ }'',
       in_parsing = Parsed (Plain fmempty)\<rparr>"
proof -
  have marked: "Plain (fmap_of_list
        [(''options'', JObj getOptimizedParams), (''stream'', JBool False)]) \<noteq> Plain fmempty"
  proof
    assume "Plain (fmap_of_list
        [(''options'', JObj getOptimizedParams), (''stream'', JBool False)]) = Plain fmempty"
    then have "fmlookup (fmap_of_list
        [(''options'', JObj getOptimizedParams), (''stream'', JBool False)]) ''stream'' =
        fmlookup fmempty ''stream''"
      by simp
    then show False by simp
  qed
  have blob: "onRoute (''POST'', ''/api/blobs/:digest'') ''POST'' ''/api/blobs/chat''"
    by (simp add: onRoute_def routes_def routeMatches_def segmentMatches_def)
  have augmented: "map cfg_data (calls (proxyHandler nullBackend
      \<lparr>req_method = ''POST'', req_path = ''/api/blobs/chat'', req_query = [],
       req_authorization = Some ''Bearer s3cret'', req_body = Some (Plain fmempty)\<rparr>)) =
     [Some (Plain (fmap_of_list
        [(''options'', JObj getOptimizedParams), (''stream'', JBool False)]))]"
    by (simp add: proxyHandler_calls effectivePayload_generation isGeneration_def augment_plain
        callerOptions_def axiosConfig_def)
  have absent: "map cfg_data (calls (proxyHandler nullBackend
      \<lparr>req_method = ''POST'', req_path = ''/api/pull'', req_query = [],
       req_authorization = Some ''Bearer s3cret'', req_body = None\<rparr>)) =
     [Some (Plain fmempty)]"
    by (simp add: proxyHandler_calls effectivePayload_def isGeneration_def axiosConfig_def)
  have same: "calls (apiRoute ''s3cret'' nullBackend
      \<lparr>in_method = ''POST'', in_path = ''/api/pull'', in_query = [],
       in_authorization = Some ''Bearer s3cret'', in_raw = raw,
       in_parsing = Parsed (Plain fmempty)\<rparr>) =
     [axiosConfig
       \<lparr>req_method = ''POST'', req_path = ''/api/pull'', req_query = [],
        req_authorization = Some ''Bearer s3cret'', req_body = Some (Plain fmempty)\<rparr>
       (Plain fmempty)]" for raw
    by (simp add: apiRoute_def expressJson_def validateToken_def proxyHandler_calls
        effectivePayload_def isGeneration_def)
  show ?thesis
    unfolding augmented absent same
    using marked blob by (simp add: axiosConfig_def)
qed

section \<open>Properties of warmup and keepalive\<close>

lemma nameMatches_True:
  assumes "nameMatches m = Inr True"
  shows "\<exists>s. entryName m = Some s \<and> (s = MODEL_NAME \<or> prefix (MODEL_NAME @ '':'') s)"
  using assms
  by (auto simp: nameMatches_def entryName_def split: sum.splits option.splits json.splits)

lemma someModel_True:
  "someModel ms = Inr True \<Longrightarrow> \<exists>m \<in> set ms. nameMatches m = Inr True"
  by (induction ms) (auto split: sum.splits bool.splits)

lemma modelListed_True:
  assumes "modelListed d = Inr True"
  shows "listingHasModel d"
proof -
  from assms obtain ms where ms: "get_prop d ''models'' = Inr (Some (JArr ms))"
      and "someModel ms = Inr True"
    by (auto simp: modelListed_def split: sum.splits option.splits json.splits)
  then obtain m where "m \<in> set ms" "nameMatches m = Inr True"
    using someModel_True by blast
  with ms show ?thesis
    using nameMatches_True [of m] by (auto simp: listingHasModel_def entries_def)
qed

text \<open>
  On a listing as the backend gives it, the program's check computes the condition of
  the specification: an entry is recognised by an equal name, and by a name that
  starts with the model name and a colon.
\<close>

lemma nameMatches_named:
  assumes "entryName m = Some s"
  shows "nameMatches m = Inr (s = MODEL_NAME \<or> prefix (MODEL_NAME @ '':'') s)"
  using assms
  by (auto simp: nameMatches_def entryName_def split: sum.splits option.splits json.splits)

lemma someModel_named:
  assumes "list_all (\<lambda>m. entryName m \<noteq> None) ms"
  shows "someModel ms =
           Inr (\<exists>m \<in> set ms. \<exists>s. entryName m = Some s \<and>
                  (s = MODEL_NAME \<or> prefix (MODEL_NAME @ '':'') s))"
  using assms
proof (induction ms)
  case Nil
  show ?case by simp
next
  case (Cons m ms)
  then obtain s where s: "entryName m = Some s" by auto
  show ?case
  proof (cases "s = MODEL_NAME \<or> prefix (MODEL_NAME @ '':'') s")
    case True
    with s show ?thesis by (auto simp: nameMatches_named)
  next
    case False
    with s Cons show ?thesis by (simp add: nameMatches_named)
  qed
qed

lemma modelListed_wellFormed:
  assumes "wellFormedListing d"
  shows "modelListed d = Inr (listingHasModel d)"
proof -
  from assms obtain ms where ms: "get_prop d ''models'' = Inr (Some (JArr ms))"
      and named: "list_all (\<lambda>m. entryName m \<noteq> None) ms"
    by (auto simp: wellFormedListing_def split: sum.splits option.splits json.splits)
  from ms have "modelListed d = someModel ms"
    by (simp add: modelListed_def)
  also have "\<dots> = Inr (\<exists>m \<in> set ms. \<exists>s. entryName m = Some s \<and>
                  (s = MODEL_NAME \<or> prefix (MODEL_NAME @ '':'') s))"
    using named by (rule someModel_named)
  also have "\<dots> = Inr (listingHasModel d)"
    using ms by (simp add: listingHasModel_def entries_def)
  finally show ?thesis .
qed

text \<open>What the warmup sends, by what the check finds.\<close>

lemma warmupModel_listed:
  assumes "axios versionRequest = Resolved ver" and "axios tagsRequest = Resolved tags"
    and "modelListed tags = Inr True"
  shows "fst (snd (warmupModel axios)) = [versionRequest, tagsRequest, warmupRequest]"
    and "fst (warmupModel axios) \<longleftrightarrow>
           (\<exists>d txt. axios warmupRequest = Resolved d \<and> responseText d = Inr txt)"
  using assms by (auto simp: warmupModel_def split: axios_result.splits sum.splits)

lemma warmupModel_unlisted:
  assumes "axios versionRequest = Resolved ver" and "axios tagsRequest = Resolved tags"
    and "modelListed tags \<noteq> Inr True"
  shows "fst (snd (warmupModel axios)) = [versionRequest, tagsRequest]"
  using assms by (auto simp: warmupModel_def split: sum.splits bool.splits)

lemma warmupModel_not_found:
  assumes "axios versionRequest = Resolved ver" and "axios tagsRequest = Resolved tags"
    and "modelListed tags = Inr False"
  shows "snd (snd (warmupModel axios)) = [WarmupStarting, ServiceRunning, ModelNotFound]"
  using assms by (simp add: warmupModel_def)

lemma startServer_console:
  "set (snd (snd (warmupModel axios))) \<subseteq> set (console (startServer axios))"
  by (auto simp: startServer_def startKeepalive_def Let_def split: prod.splits)

lemma warmupModel_True:
  assumes "fst (warmupModel axios)"
  shows "\<exists>tags. axios tagsRequest = Resolved tags \<and> modelListed tags = Inr True"
  using assms
  by (auto simp: warmupModel_def split: axios_result.splits sum.splits bool.splits)

lemma warmupModel_generate:
  assumes "warmupRequest \<in> set (fst (snd (warmupModel axios)))"
  shows "\<exists>tags. axios tagsRequest = Resolved tags \<and> modelListed tags = Inr True"
proof -
  have "warmupRequest \<noteq> versionRequest" "warmupRequest \<noteq> tagsRequest"
    by (simp_all add: warmupRequest_def versionRequest_def tagsRequest_def axiosGet_def axiosPost_def)
  with assms show ?thesis
    by (auto simp: warmupModel_def split: axios_result.splits sum.splits bool.splits)
qed

lemma startServer_fields:
  "listening (startServer axios)"
  "keepalive (startServer axios) = fst (warmupModel axios)"
  "exit_code (startServer axios) = None"
  "served (startServer axios) = []"
  "outbound (startServer axios) = fst (snd (warmupModel axios))"
  by (simp_all add: startServer_def startKeepalive_def Let_def split: prod.splits)

lemma step_keepalive: "keepalive (step env s ev) = keepalive s"
  by (simp add: step_def split: event.splits)

lemma step_listening: "listening (step env s ev) = listening s"
  by (simp add: step_def split: event.splits)

lemma run_keepalive: "keepalive (run env s evs) = keepalive s"
  by (induction evs arbitrary: s) (simp_all add: step_keepalive)

lemma run_listening: "listening (run env s evs) = listening s"
  by (induction evs arbitrary: s) (simp_all add: step_listening)

lemma step_exit:
  "exit_code (step env s ev) \<noteq> None \<longleftrightarrow> exit_code s \<noteq> None \<or> ev = Sigint \<or> ev = Sigterm"
  by (auto simp: step_def split: event.splits)

lemma run_exit:
  "exit_code (run env s evs) \<noteq> None \<longleftrightarrow>
     exit_code s \<noteq> None \<or> Sigint \<in> set evs \<or> Sigterm \<in> set evs"
proof (induction evs arbitrary: s)
  case Nil
  show ?case by simp
next
  case (Cons ev evs)
  have "exit_code (run env s (ev # evs)) \<noteq> None \<longleftrightarrow>
          exit_code (step env s ev) \<noteq> None \<or> Sigint \<in> set evs \<or> Sigterm \<in> set evs"
    using Cons.IH [of "step env s ev"] by simp
  also have "\<dots> \<longleftrightarrow>
          (exit_code s \<noteq> None \<or> ev = Sigint \<or> ev = Sigterm) \<or> Sigint \<in> set evs \<or> Sigterm \<in> set evs"
    by (simp only: step_exit)
  also have "\<dots> \<longleftrightarrow>
          exit_code s \<noteq> None \<or> Sigint \<in> set (ev # evs) \<or> Sigterm \<in> set (ev # evs)"
    by auto
  finally show ?case .
qed

lemma step_Tick:
  assumes "keepalive s" and "exit_code s = None"
  shows "step env s (Tick axios) =
           s\<lparr>outbound := outbound s @ [keepaliveRequest],
             console := console s @
               [case axios keepaliveRequest of
                  Resolved d \<Rightarrow> PingSuccessful
                | Rejected e \<Rightarrow> PingFailed (err_message e)]\<rparr>"
  using assms by (simp add: step_def keepalivePing_def split: axios_result.splits)

lemma run_Ticks:
  assumes "keepalive s" and "exit_code s = None"
  shows "outbound (run env s (map Tick axs)) = outbound s @ replicate (length axs) keepaliveRequest \<and>
         exit_code (run env s (map Tick axs)) = None"
  using assms
proof (induction axs arbitrary: s)
  case Nil
  then show ?case by simp
next
  case (Cons ax axs)
  have "keepalive (step env s (Tick ax))" "exit_code (step env s (Tick ax)) = None"
    "outbound (step env s (Tick ax)) = outbound s @ [keepaliveRequest]"
    using Cons.prems by (simp_all add: step_Tick)
  with Cons.IH [of "step env s (Tick ax)"] show ?case
    by (simp add: replicate_app_Cons_same)
qed

lemma calls_apiRoute:
  assumes "c \<in> set (calls (apiRoute token backend inb))"
  shows "cfg_headers c = [(''Content-Type'', ''application/json'')]"
proof (cases "expressJson inb")
  case (Inl st)
  with assms show ?thesis by (simp add: apiRoute_def)
next
  case (Inr req)
  show ?thesis
  proof (cases "validateToken token req")
    case None
    with assms Inr have "c \<in> set (calls (proxyHandler backend req))"
      by (simp add: apiRoute_def)
    then show ?thesis
      by (cases "effectivePayload req")
        (simp_all add: proxyHandler_threw proxyHandler_calls axiosConfig_def)
  next
    case (Some r)
    with assms Inr show ?thesis
      by (simp add: apiRoute_def split: prod.splits)
  qed
qed

lemma keepaliveRequest_headers: "cfg_headers keepaliveRequest = []"
  by (simp add: keepaliveRequest_def axiosPost_def)

lemma warmupModel_calls:
  "set (fst (snd (warmupModel axios))) \<subseteq> {versionRequest, tagsRequest, warmupRequest}"
  by (auto simp: warmupModel_def split: axios_result.splits sum.splits bool.splits)

lemma keepaliveRequest_fresh:
  "keepaliveRequest \<noteq> versionRequest" "keepaliveRequest \<noteq> tagsRequest"
  "keepaliveRequest \<noteq> warmupRequest"
  by (simp_all add: keepaliveRequest_def warmupRequest_def versionRequest_def tagsRequest_def
      axiosGet_def axiosPost_def)

lemma step_no_ping:
  assumes "\<not> keepalive s" and "keepaliveRequest \<notin> set (outbound s)"
  shows "keepaliveRequest \<notin> set (outbound (step env s ev))"
proof (cases ev)
  case (Request backend inb)
  have "keepaliveRequest \<notin> set (calls (apiRoute (BEARER_TOKEN env) backend inb))"
    using calls_apiRoute [of keepaliveRequest] by (auto simp: keepaliveRequest_headers)
  with assms Request show ?thesis by (simp add: step_def)
qed (use assms in \<open>simp_all add: step_def\<close>)

lemma run_no_ping:
  assumes "\<not> keepalive s" and "keepaliveRequest \<notin> set (outbound s)"
  shows "keepaliveRequest \<notin> set (outbound (run env s evs))"
  using assms
proof (induction evs arbitrary: s)
  case Nil
  then show ?case by simp
next
  case (Cons ev evs)
  then show ?case by (simp add: step_no_ping step_keepalive)
qed

text \<open>
  C7. At startup, once the backend has answered the version call, the warmup asks for
  the listing of \<^verbatim>\<open>/api/tags\<close> and checks it for an entry whose name is the configured
  model name or starts with it followed by a colon: on a listing as the backend gives
  it the check finds exactly that, and when it finds such an entry the warmup goes on
  to its generation request. When the listing has no such entry, the warmup returns
  false without sending the generation request and logs that the model was not found,
  the server listens and has not exited, the keepalive timer is not set then nor after
  any sequence of events, no keepalive ping is ever sent, and a request that arrives
  is served through the parser, the gate and the handler.
\<close>

theorem startup_without_model:
  assumes "axios tagsRequest = Resolved tags"
  shows "(\<not> listingHasModel tags \<longrightarrow>
            \<not> fst (warmupModel axios) \<and>
            warmupRequest \<notin> set (outbound (startServer axios)) \<and>
            listening (startServer axios) \<and>
            exit_code (startServer axios) = None \<and>
            (\<forall>evs. \<not> keepalive (run env (startServer axios) evs)) \<and>
            (\<forall>evs. keepaliveRequest \<notin> set (outbound (run env (startServer axios) evs))) \<and>
            (\<forall>backend inb. served (step env (startServer axios) (Request backend inb)) =
               [apiRoute (BEARER_TOKEN env) backend inb])) \<and>
         (\<forall>ver. axios versionRequest = Resolved ver \<longrightarrow>
            take 2 (outbound (startServer axios)) = [versionRequest, tagsRequest] \<and>
            (\<not> listingHasModel tags \<longrightarrow>
               outbound (startServer axios) = [versionRequest, tagsRequest]) \<and>
            (wellFormedListing tags \<longrightarrow> modelListed tags = Inr (listingHasModel tags)) \<and>
            (wellFormedListing tags \<and> \<not> listingHasModel tags \<longrightarrow>
               ModelNotFound \<in> set (console (startServer axios))) \<and>
            (wellFormedListing tags \<and> listingHasModel tags \<longrightarrow>
               outbound (startServer axios) = [versionRequest, tagsRequest, warmupRequest] \<and>
               (keepalive (startServer axios) \<longleftrightarrow>
                  (\<exists>d txt. axios warmupRequest = Resolved d \<and> responseText d = Inr txt))))"
proof (intro conjI allI impI)
  assume absent: "\<not> listingHasModel tags"
  have cold: "\<not> fst (warmupModel axios)"
    using warmupModel_True [of axios] modelListed_True assms absent by auto
  have none: "warmupRequest \<notin> set (fst (snd (warmupModel axios)))"
    using warmupModel_generate [of axios] modelListed_True assms absent by auto
  have off: "\<not> keepalive (startServer axios)"
    by (simp add: startServer_fields cold)
  have fresh: "keepaliveRequest \<notin> set (outbound (startServer axios))"
    using warmupModel_calls [of axios] keepaliveRequest_fresh
    by (auto simp: startServer_fields)
  show "\<not> fst (warmupModel axios)" by (rule cold)
  show "warmupRequest \<notin> set (outbound (startServer axios))"
    using none by (simp add: startServer_fields)
  show "listening (startServer axios)" by (simp add: startServer_fields)
  show "exit_code (startServer axios) = None" by (simp add: startServer_fields)
  show "\<not> keepalive (run env (startServer axios) evs)" for evs
    using off by (simp add: run_keepalive)
  show "keepaliveRequest \<notin> set (outbound (run env (startServer axios) evs))" for evs
    using off fresh by (rule run_no_ping)
  show "served (step env (startServer axios) (Request backend inb)) =
      [apiRoute (BEARER_TOKEN env) backend inb]" for backend inb
    by (simp add: step_def startServer_fields)
next
  fix ver assume ver: "axios versionRequest = Resolved ver"
  show "take 2 (outbound (startServer axios)) = [versionRequest, tagsRequest]"
    using warmupModel_listed(1) [OF ver assms] warmupModel_unlisted [OF ver assms]
    by (cases "modelListed tags = Inr True") (simp_all add: startServer_fields)
  show "outbound (startServer axios) = [versionRequest, tagsRequest]"
    if "\<not> listingHasModel tags"
    using that modelListed_True [of tags] warmupModel_unlisted [OF ver assms]
    by (auto simp: startServer_fields)
  show "modelListed tags = Inr (listingHasModel tags)" if "wellFormedListing tags"
    using that by (rule modelListed_wellFormed)
  show "ModelNotFound \<in> set (console (startServer axios))"
    if "wellFormedListing tags \<and> \<not> listingHasModel tags"
  proof -
    from that have "modelListed tags = Inr False"
      by (simp add: modelListed_wellFormed)
    then have "ModelNotFound \<in> set (snd (snd (warmupModel axios)))"
      by (simp add: warmupModel_not_found [OF ver assms])
    then show ?thesis
      using startServer_console [of axios] by blast
  qed
  {
    assume found: "wellFormedListing tags \<and> listingHasModel tags"
    then have listed: "modelListed tags = Inr True"
      by (simp add: modelListed_wellFormed)
    show "outbound (startServer axios) = [versionRequest, tagsRequest, warmupRequest]"
      by (simp add: startServer_fields warmupModel_listed(1) [OF ver assms listed])
    show "keepalive (startServer axios) \<longleftrightarrow>
        (\<exists>d txt. axios warmupRequest = Resolved d \<and> responseText d = Inr txt)"
      by (simp only: startServer_fields warmupModel_listed(2) [OF ver assms listed])
  }
qed

theorem startup_without_model_witness:
  "outbound (startServer
      (\<lambda>c. Resolved (JObj (fmap_of_list
         [(''models'', JArr [JObj (fmap_of_list [(''name'', JStr ''llama3:8b'')])])])))) =
     [versionRequest, tagsRequest] \<and>
   \<not> keepalive (run None (startServer
      (\<lambda>c. Resolved (JObj (fmap_of_list
         [(''models'', JArr [JObj (fmap_of_list [(''name'', JStr ''llama3:8b'')])])]))))
      [Tick nullBackend, Tick nullBackend]) \<and>
   outbound (startServer
      (\<lambda>c. Resolved (JObj (fmap_of_list
         [(''models'', JArr [JObj (fmap_of_list [(''name'', JStr ''llama3:8b'')]),
                             JObj (fmap_of_list [(''name'', JStr ''mistral:7b:q4'')])]),
          (''response'', JStr ''Hello'')])))) =
     [versionRequest, tagsRequest, warmupRequest] \<and>
   keepalive (startServer
      (\<lambda>c. Resolved (JObj (fmap_of_list
         [(''models'', JArr [JObj (fmap_of_list [(''name'', JStr ''llama3:8b'')]),
                             JObj (fmap_of_list [(''name'', JStr ''mistral:7b:q4'')])]),
          (''response'', JStr ''Hello'')]))))"
proof -
  let ?cold = "JObj (fmap_of_list
         [(''models'', JArr [JObj (fmap_of_list [(''name'', JStr ''llama3:8b'')])])])"
  let ?warm = "JObj (fmap_of_list
         [(''models'', JArr [JObj (fmap_of_list [(''name'', JStr ''llama3:8b'')]),
                             JObj (fmap_of_list [(''name'', JStr ''mistral:7b:q4'')])]),
          (''response'', JStr ''Hello'')])"
  have absent: "\<not> listingHasModel ?cold"
    by (simp add: listingHasModel_def entries_def entryName_def MODEL_NAME_def)
  have present: "wellFormedListing ?warm \<and> listingHasModel ?warm"
    by (simp add: wellFormedListing_def listingHasModel_def entries_def entryName_def
        MODEL_NAME_def)
  have answered: "\<exists>d txt. (\<lambda>c. Resolved ?warm) warmupRequest = Resolved d \<and> responseText d = Inr txt"
    by (simp add: responseText_def)
  from startup_without_model [of "\<lambda>c. Resolved ?cold" ?cold None, OF refl] absent
  have "outbound (startServer (\<lambda>c. Resolved ?cold)) = [versionRequest, tagsRequest]"
    and "\<not> keepalive (run None (startServer (\<lambda>c. Resolved ?cold))
           [Tick nullBackend, Tick nullBackend])"
    by blast+
  moreover
  from startup_without_model [of "\<lambda>c. Resolved ?warm" ?warm None, OF refl] present answered
  have "outbound (startServer (\<lambda>c. Resolved ?warm)) =
          [versionRequest, tagsRequest, warmupRequest]"
    and "keepalive (startServer (\<lambda>c. Resolved ?warm))"
    by blast+
  ultimately show ?thesis
    by (intro conjI)
qed

text \<open>
  C8. Once the keepalive timer is set, every tick sends the keepalive request, a
  minimal generation (prompt \<^verbatim>\<open>ping\<close>, no streaming, one token, thirty seconds), and
  logs the outcome; whether the ping succeeds or fails, the timer stays set and the
  process goes on. No event clears the timer, and the process has exited exactly when
  an interrupt or a termination signal has arrived.
\<close>

theorem keepalive_loop:
  assumes "keepalive s" and "exit_code s = None"
  shows "step env s (Tick axios) =
           s\<lparr>outbound := outbound s @ [keepaliveRequest],
             console := console s @
               [case axios keepaliveRequest of
                  Resolved d \<Rightarrow> PingSuccessful
                | Rejected e \<Rightarrow> PingFailed (err_message e)]\<rparr> \<and>
         (\<forall>axs. outbound (run env s (map Tick axs)) =
                  outbound s @ replicate (length axs) keepaliveRequest \<and>
                exit_code (run env s (map Tick axs)) = None) \<and>
         (\<forall>evs. keepalive (run env s evs)) \<and>
         (\<forall>evs. exit_code (run env s evs) \<noteq> None \<longleftrightarrow> Sigint \<in> set evs \<or> Sigterm \<in> set evs) \<and>
         cfg_method keepaliveRequest = ''POST'' \<and>
         cfg_url keepaliveRequest = OLLAMA_URL @ ''/api/generate'' \<and>
         cfg_timeout keepaliveRequest = Some 30000 \<and>
         (\<exists>m opts. cfg_data keepaliveRequest = Some (Plain m) \<and>
            fmlookup m ''model'' = Some (JStr MODEL_NAME) \<and>
            fmlookup m ''prompt'' = Some (JStr ''ping'') \<and>
            fmlookup m ''stream'' = Some (JBool False) \<and>
            fmlookup m ''options'' = Some (JObj opts) \<and>
            fmlookup opts ''max_tokens'' = Some (JNum 1))"
proof -
  have ping: "\<exists>m opts. cfg_data keepaliveRequest = Some (Plain m) \<and>
            fmlookup m ''model'' = Some (JStr MODEL_NAME) \<and>
            fmlookup m ''prompt'' = Some (JStr ''ping'') \<and>
            fmlookup m ''stream'' = Some (JBool False) \<and>
            fmlookup m ''options'' = Some (JObj opts) \<and>
            fmlookup opts ''max_tokens'' = Some (JNum 1)"
    by (simp add: keepaliveRequest_def axiosPost_def keepalivePayload_def)
  have shape: "cfg_method keepaliveRequest = ''POST''"
    "cfg_url keepaliveRequest = OLLAMA_URL @ ''/api/generate''"
    "cfg_timeout keepaliveRequest = Some 30000"
    by (simp_all add: keepaliveRequest_def axiosPost_def)
  have exits: "exit_code (run env s evs) \<noteq> None \<longleftrightarrow> Sigint \<in> set evs \<or> Sigterm \<in> set evs"
    for evs
    using run_exit [of env s evs] assms(2) by simp
  have ticks: "outbound (run env s (map Tick axs)) =
                  outbound s @ replicate (length axs) keepaliveRequest \<and>
                exit_code (run env s (map Tick axs)) = None" for axs
    using assms by (rule run_Ticks)
  have stays: "keepalive (run env s evs)" for evs
    using assms(1) by (simp add: run_keepalive)
  from step_Tick [OF assms] ticks stays exits shape ping show ?thesis
    by blast
qed

theorem keepalive_loop_witness:
  "outbound (run None
      (startServer (\<lambda>c. Resolved (JObj (fmap_of_list
         [(''models'', JArr [JObj (fmap_of_list [(''name'', JStr ''mistral:7b'')])]),
          (''response'', JStr ''Hello'')]))))
      (map Tick
        [\<lambda>c. Rejected \<lparr>err_response = None, err_code = Some ''ECONNREFUSED'',
                         err_message = ''connect ECONNREFUSED 127.0.0.1:11434''\<rparr>,
         nullBackend])) =
     [versionRequest, tagsRequest, warmupRequest, keepaliveRequest, keepaliveRequest] \<and>
   keepalive (run None
      (startServer (\<lambda>c. Resolved (JObj (fmap_of_list
         [(''models'', JArr [JObj (fmap_of_list [(''name'', JStr ''mistral:7b'')])]),
          (''response'', JStr ''Hello'')]))))
      (map Tick
        [\<lambda>c. Rejected \<lparr>err_response = None, err_code = Some ''ECONNREFUSED'',
                         err_message = ''connect ECONNREFUSED 127.0.0.1:11434''\<rparr>,
         nullBackend]))"
proof -
  let ?warm = "\<lambda>c. Resolved (JObj (fmap_of_list
         [(''models'', JArr [JObj (fmap_of_list [(''name'', JStr ''mistral:7b'')])]),
          (''response'', JStr ''Hello'')])) :: json axios_result"
  let ?ticks = "[\<lambda>c. Rejected \<lparr>err_response = None, err_code = Some ''ECONNREFUSED'',
                         err_message = ''connect ECONNREFUSED 127.0.0.1:11434''\<rparr>,
         nullBackend] :: json backend list"
  have warm: "warmupModel ?warm =
      (True, [versionRequest, tagsRequest, warmupRequest],
       [WarmupStarting, ServiceRunning, ModelFound, WarmingUp, WarmupCompleted, WarmupResponse])"
    by (simp add: warmupModel_def modelListed_def nameMatches_def responseText_def MODEL_NAME_def)
  have on: "keepalive (startServer ?warm)"
    and up: "exit_code (startServer ?warm) = None"
    and sent: "outbound (startServer ?warm) = [versionRequest, tagsRequest, warmupRequest]"
    by (simp_all only: startServer_fields warm fst_conv snd_conv)
  from keepalive_loop [OF on up, of None]
  have "outbound (run None (startServer ?warm) (map Tick ?ticks)) =
          outbound (startServer ?warm) @ replicate (length ?ticks) keepaliveRequest"
    and "keepalive (run None (startServer ?warm) (map Tick ?ticks))"
    by blast+
  with sent show ?thesis
    by (simp add: numeral_2_eq_2)
qed

section \<open>Properties of the health checks\<close>

text \<open>
  C10. The legacy \<^verbatim>\<open>/health\<close> handler answers 200 with status \<^verbatim>\<open>healthy\<close>, the
  timestamp and the backend URL and nothing else, and makes no call to the backend, so
  its answer is the same when the backend is down. The model-aware handler calls the
  backend first; when that call fails, and whenever it does not answer 200, it answers
  503 with status \<^verbatim>\<open>unhealthy\<close> and an \<^verbatim>\<open>error\<close> field.
\<close>

theorem legacy_health_ignores_backend:
  "calls (healthLegacy now) = [] \<and>
   res_status (healthLegacy now) = 200 \<and>
   (\<exists>m. res_body (healthLegacy now) = SendJson (JObj m) \<and>
      fmdom' m = {''status'', ''timestamp'', ''ollama_url''} \<and>
      fmlookup m ''status'' = Some (JStr ''healthy'') \<and>
      fmlookup m ''timestamp'' = Some (JStr now) \<and>
      fmlookup m ''ollama_url'' = Some (JStr OLLAMA_URL)) \<and>
   (\<forall>axios. hd (calls (health axios now)) = versionRequest \<and> calls (health axios now) \<noteq> []) \<and>
   (\<forall>axios e. axios versionRequest = Rejected e \<longrightarrow>
      res_status (health axios now) = 503 \<and>
      (\<exists>m. res_body (health axios now) = SendJson (JObj m) \<and>
         fmlookup m ''status'' = Some (JStr ''unhealthy'') \<and>
         fmlookup m ''error'' = Some (JStr (err_message e)))) \<and>
   (\<forall>axios. res_status (health axios now) \<noteq> 200 \<longrightarrow>
      res_status (health axios now) = 503 \<and>
      (\<exists>m msg. res_body (health axios now) = SendJson (JObj m) \<and>
         fmlookup m ''status'' = Some (JStr ''unhealthy'') \<and>
         fmlookup m ''error'' = Some (JStr msg)))"
proof (intro conjI allI impI)
  show "\<exists>m. res_body (healthLegacy now) = SendJson (JObj m) \<and>
      fmdom' m = {''status'', ''timestamp'', ''ollama_url''} \<and>
      fmlookup m ''status'' = Some (JStr ''healthy'') \<and>
      fmlookup m ''timestamp'' = Some (JStr now) \<and>
      fmlookup m ''ollama_url'' = Some (JStr OLLAMA_URL)"
    by (auto simp: healthLegacy_def)
next
  fix axios :: "json backend" and e
  assume "axios versionRequest = Rejected e"
  then have "health axios now = unhealthy [versionRequest] now (err_message e)"
    by (simp add: health_def)
  then show "res_status (health axios now) = 503"
    and "\<exists>m. res_body (health axios now) = SendJson (JObj m) \<and>
         fmlookup m ''status'' = Some (JStr ''unhealthy'') \<and>
         fmlookup m ''error'' = Some (JStr (err_message e))"
    by (simp_all add: unhealthy_def)
next
  fix axios :: "json backend"
  assume "res_status (health axios now) \<noteq> 200"
  then obtain made msg where "health axios now = unhealthy made now msg"
    by (auto simp: health_def split: axios_result.splits sum.splits)
  then show "res_status (health axios now) = 503"
    and "\<exists>m msg. res_body (health axios now) = SendJson (JObj m) \<and>
         fmlookup m ''status'' = Some (JStr ''unhealthy'') \<and>
         fmlookup m ''error'' = Some (JStr msg)"
    by (simp_all add: unhealthy_def)
next
  fix axios :: "json backend"
  show "hd (calls (health axios now)) = versionRequest"
    and "calls (health axios now) \<noteq> []"
    by (simp_all add: health_def unhealthy_def split: axios_result.splits sum.splits)
qed (simp_all add: healthLegacy_def)

theorem legacy_health_ignores_backend_witness:
  "res_status (healthLegacy ''2025-01-01T00:00:00.000Z'') = 200 \<and>
   res_status (health
      (\<lambda>c. Rejected \<lparr>err_response = None, err_code = Some ''ECONNREFUSED'',
                       err_message = ''connect ECONNREFUSED 127.0.0.1:11434''\<rparr>)
      ''2025-01-01T00:00:00.000Z'') = 503"
  using legacy_health_ignores_backend [of "''2025-01-01T00:00:00.000Z''"]
  by simp


end
